theory Spec2Isabelle
  imports Complex_Main "HOL-Library.AList"
begin

section \<open>Python values used by the launcher\<close>

text \<open>
  The program is a single Python file, \<^verbatim>\<open>MichaelAI2.3.py\<close>. Strings are lists of
  characters; a character is a code point below 256. Python's unbounded integers are
  \<open>int\<close>. The numbers the program computes by true division (\<^verbatim>\<open>vram_mb / 1024\<close>,
  \<^verbatim>\<open>ram.total / (1024**3)\<close>) or reads with \<^verbatim>\<open>float(...)\<close> are modelled by the real
  number they denote, so a NaN is not a value of the model and rounding of the
  quotient is not modelled; the thresholds they are compared with (0, 4, 8) are exact.
\<close>

subsection \<open>String methods\<close>

text \<open>\<^verbatim>\<open>str.isspace\<close> on one character, for code points below 256.\<close>

definition py_isspace :: "char \<Rightarrow> bool" where
  "py_isspace c =
     (let n = (of_char c :: nat)
      in (9 \<le> n \<and> n \<le> 13) \<or> (28 \<le> n \<and> n \<le> 32) \<or> n = 133 \<or> n = 160)"

text \<open>\<^verbatim>\<open>s.strip()\<close>: whitespace removed at both ends.\<close>

definition strip :: "string \<Rightarrow> string" where
  "strip s = rev (dropWhile py_isspace (rev (dropWhile py_isspace s)))"

text \<open>\<^verbatim>\<open>s.split(sep)\<close> for a one-character separator: at least one field, empty
  fields kept.\<close>

fun split_on :: "char \<Rightarrow> string \<Rightarrow> string list" where
  "split_on sep [] = [[]]"
| "split_on sep (c # cs) =
     (if c = sep then [] # split_on sep cs
      else (case split_on sep cs of
              [] \<Rightarrow> [[c]]
            | w # ws \<Rightarrow> (c # w) # ws))"

definition newline :: char where
  "newline = CHR 0x0A"

text \<open>\<^verbatim>\<open>s.split()\<close>: fields separated by runs of whitespace, no empty field. The
  first argument is the field being read, in reverse.\<close>

fun split_ws :: "string \<Rightarrow> string \<Rightarrow> string list" where
  "split_ws cur [] = (if cur = [] then [] else [rev cur])"
| "split_ws cur (c # cs) =
     (if py_isspace c
      then (if cur = [] then split_ws [] cs else rev cur # split_ws [] cs)
      else split_ws (c # cur) cs)"

definition py_split :: "string \<Rightarrow> string list" where
  "py_split s = split_ws [] s"

text \<open>\<^verbatim>\<open>sub in s\<close>: \<open>sub\<close> occurs in \<open>s\<close> as a contiguous substring.\<close>

fun startswith :: "string \<Rightarrow> string \<Rightarrow> bool" where
  "startswith s [] = True"
| "startswith [] (p # ps) = False"
| "startswith (c # cs) (p # ps) = (c = p \<and> startswith cs ps)"

fun py_in :: "string \<Rightarrow> string \<Rightarrow> bool" where
  "py_in sub [] = (sub = [])"
| "py_in sub (c # cs) = (startswith (c # cs) sub \<or> py_in sub cs)"

text \<open>\<^verbatim>\<open>s.isdigit()\<close>: non-empty, every character a digit. Below 256 the digits
  are \<open>0\<close> to \<open>9\<close> and the superscripts two, three and one (178, 179, 185), which
  \<^verbatim>\<open>int\<close> and \<^verbatim>\<open>float\<close> reject.\<close>

definition ascii_digit :: "char \<Rightarrow> bool" where
  "ascii_digit c = (let n = (of_char c :: nat) in 48 \<le> n \<and> n \<le> 57)"

definition digit_char :: "char \<Rightarrow> bool" where
  "digit_char c =
     (let n = (of_char c :: nat) in ascii_digit c \<or> n = 178 \<or> n = 179 \<or> n = 185)"

definition py_isdigit :: "string \<Rightarrow> bool" where
  "py_isdigit s = (s \<noteq> [] \<and> list_all digit_char s)"

definition digit_value :: "char \<Rightarrow> int" where
  "digit_value c = int (of_char c) - 48"

definition digits_value :: "string \<Rightarrow> int" where
  "digits_value s = foldl (\<lambda>a c. 10 * a + digit_value c) 0 s"

text \<open>The body of a decimal integer literal as \<^verbatim>\<open>int(str)\<close> accepts it: digits, with
  single underscores between digits. The flag says whether the previous character was
  a digit.\<close>

fun int_body :: "bool \<Rightarrow> string \<Rightarrow> bool" where
  "int_body prev [] = prev"
| "int_body prev (c # cs) =
     (if ascii_digit c then int_body True cs
      else if c = CHR ''_'' \<and> prev then (cs \<noteq> [] \<and> ascii_digit (hd cs) \<and> int_body False cs)
      else False)"

text \<open>\<^verbatim>\<open>int(s)\<close> in base 10: \<open>None\<close> is the ValueError.\<close>

definition py_int :: "string \<Rightarrow> int option" where
  "py_int s =
     (let t = strip s;
          neg = (t \<noteq> [] \<and> hd t = CHR ''-'');
          body = (if t \<noteq> [] \<and> (hd t = CHR ''-'' \<or> hd t = CHR ''+'') then tl t else t)
      in if int_body False body
         then Some ((if neg then - 1 else 1) * digits_value (filter (\<lambda>c. c \<noteq> CHR ''_'') body))
         else None)"

text \<open>\<^verbatim>\<open>str(n)\<close> for a natural number.\<close>

fun str_nat :: "nat \<Rightarrow> string" where
  "str_nat n = (if n < 10 then [char_of (48 + n)] else str_nat (n div 10) @ [char_of (48 + n mod 10)])"

declare str_nat.simps [simp del]

text \<open>\<^verbatim>\<open>float(s)\<close> on a string of digits and dots, the only strings the program
  passes to it: the decimal's value, or \<open>None\<close> (ValueError) when it has two dots, no
  digit or a digit that is not ASCII.\<close>

definition py_float :: "string \<Rightarrow> real option" where
  "py_float s =
     (let ip = takeWhile (\<lambda>c. c \<noteq> CHR ''.'') s;
          rest = dropWhile (\<lambda>c. c \<noteq> CHR ''.'') s;
          fp = (if rest = [] then [] else tl rest)
      in if list_all ascii_digit ip \<and> list_all ascii_digit fp \<and> (ip \<noteq> [] \<or> fp \<noteq> [])
         then Some (real_of_int (digits_value ip) + real_of_int (digits_value fp) / 10 ^ length fp)
         else None)"

text \<open>\<^verbatim>\<open>os.path.basename\<close> on a POSIX path: what follows the last slash.\<close>

definition basename :: "string \<Rightarrow> string" where
  "basename p = rev (takeWhile (\<lambda>c. c \<noteq> CHR ''/'') (rev p))"

section \<open>GPU memory detection\<close>

text \<open>
  \<^verbatim>\<open>SystemChecker.detect_vram\<close> runs up to three vendor tools with
  \<^verbatim>\<open>subprocess.run(..., capture_output=True, text=True, timeout=10)\<close>. What a run
  gives is an input of the model: it completes with a return code and its standard
  output, it exceeds the timeout, or it raises another exception (the tool is not
  installed, say), whose text is kept.
\<close>

datatype run_result = Completed int string | Timeout_expired | Run_error string

datatype tool = Nvidia_smi | Rocm_smi | System_profiler

record vram_env =
  nvidia_smi :: run_result
  rocm_smi :: run_result
  platform :: string
  system_profiler :: run_result

text \<open>The one message each path of \<^verbatim>\<open>detect_vram\<close> prints: a success naming the
  vendor whose tool reported the memory, or a warning. The warning
  \<^verbatim>\<open>Could not detect VRAM: ...\<close> ends with the exception's text, which is not kept.
  \<open>result_gb\<close> is the value returned.\<close>

datatype vram_message =
    Detected_nvidia
  | Detected_amd
  | Detected_apple
  | No_dedicated_gpu
  | Detection_timed_out
  | Could_not_detect
  | No_message

record vram_result =
  result_gb :: real
  report :: vram_message
  tools_run :: "tool list"

text \<open>The exceptions that the model names.\<close>

datatype py_error = ValueError | EOFError

text \<open>The NVIDIA block: \<open>Inr None\<close> when it falls through to the next tool, \<open>Inl\<close>
  when \<^verbatim>\<open>int(lines[0])\<close> raises.\<close>

definition nvidia_block :: "int \<Rightarrow> string \<Rightarrow> py_error + real option" where
  "nvidia_block returncode stdout =
     (if returncode = 0
      then (let lines = split_on newline (strip stdout)
            in if lines \<noteq> [] \<and> hd lines \<noteq> []
               then (case py_int (hd lines) of
                       None \<Rightarrow> Inl ValueError
                     | Some vram_mb \<Rightarrow> Inr (Some (real_of_int vram_mb / 1024)))
               else Inr None)
      else Inr None)"

text \<open>The loop over \<^verbatim>\<open>enumerate(parts)\<close> of the AMD block; \<open>prev\<close> is
  \<^verbatim>\<open>parts[i-1]\<close>, absent when \<^verbatim>\<open>i = 0\<close>. A ValueError of \<^verbatim>\<open>int(part)\<close> leaves the
  loop: the handler around it passes on to the next line.\<close>

datatype scan = Hit int | Miss | Raised

fun scan_parts :: "string option \<Rightarrow> string list \<Rightarrow> scan" where
  "scan_parts prev [] = Miss"
| "scan_parts prev (part # parts) =
     (if py_isdigit part \<and> prev = Some ''Total''
      then (case py_int part of None \<Rightarrow> Raised | Some vram_mb \<Rightarrow> Hit vram_mb)
      else scan_parts (Some part) parts)"

fun amd_lines :: "string list \<Rightarrow> real option" where
  "amd_lines [] = None"
| "amd_lines (line # lines) =
     (if py_in ''Total'' line \<and> py_in ''MB'' line
      then (case scan_parts None (py_split line) of
              Hit vram_mb \<Rightarrow> Some (real_of_int vram_mb / 1024)
            | Miss \<Rightarrow> amd_lines lines
            | Raised \<Rightarrow> amd_lines lines)
      else amd_lines lines)"

definition amd_block :: "int \<Rightarrow> string \<Rightarrow> real option" where
  "amd_block returncode stdout =
     (if returncode = 0 then amd_lines (split_on newline stdout) else None)"

text \<open>The Apple block. \<^verbatim>\<open>part.replace('.', '').isdigit()\<close> selects the first part
  made of digits and dots; \<^verbatim>\<open>float(part)\<close> may raise, and then the line's test
  \<^verbatim>\<open>vram_gb > 0\<close> is skipped. The variable \<^verbatim>\<open>vram_gb\<close> lives across the lines.
  \<open>Inl v\<close> is \<^verbatim>\<open>return vram_gb\<close> inside the loop, \<open>Inr v\<close> the variable when the
  loop ends.\<close>

definition number_like :: "string \<Rightarrow> bool" where
  "number_like part = py_isdigit (filter (\<lambda>c. c \<noteq> CHR ''.'') part)"

definition first_number :: "string list \<Rightarrow> string option" where
  "first_number parts = (case filter number_like parts of [] \<Rightarrow> None | p # _ \<Rightarrow> Some p)"

definition apple_line :: "real \<Rightarrow> string \<Rightarrow> py_error + real" where
  "apple_line vram line =
     (if py_in ''GB'' line
      then (case first_number (py_split line) of
              None \<Rightarrow> Inr vram
            | Some part \<Rightarrow> (case py_float part of None \<Rightarrow> Inl ValueError | Some v \<Rightarrow> Inr v))
      else if py_in ''MB'' line
      then (case first_number (py_split line) of
              None \<Rightarrow> Inr vram
            | Some part \<Rightarrow>
                (case py_float part of None \<Rightarrow> Inl ValueError | Some vram_mb \<Rightarrow> Inr (vram_mb / 1024)))
      else Inr vram)"

fun apple_lines :: "real \<Rightarrow> string list \<Rightarrow> real + real" where
  "apple_lines vram [] = Inr vram"
| "apple_lines vram (line # lines) =
     (if py_in ''VRAM'' line \<or> py_in ''Memory'' line
      then (case apple_line vram line of
              Inl e \<Rightarrow> apple_lines vram lines
            | Inr v \<Rightarrow> (if v > 0 then Inl v else apple_lines v lines))
      else apple_lines vram lines)"

definition apple_block :: "run_result \<Rightarrow> real + real" where
  "apple_block r =
     (case r of
        Completed returncode stdout \<Rightarrow> apple_lines 0 (split_on newline stdout)
      | Timeout_expired \<Rightarrow> Inr 0
      | Run_error e \<Rightarrow> Inr 0)"

text \<open>What follows the AMD block: the Apple block on macOS, then the final test.\<close>

definition after_amd :: "vram_env \<Rightarrow> vram_result" where
  "after_amd env =
     (if platform env = ''darwin''
      then (case apple_block (system_profiler env) of
              Inl v \<Rightarrow> \<lparr>result_gb = v, report = Detected_apple,
                        tools_run = [Nvidia_smi, Rocm_smi, System_profiler]\<rparr>
            | Inr v \<Rightarrow>
                (if v = 0
                 then \<lparr>result_gb = 0, report = No_dedicated_gpu,
                         tools_run = [Nvidia_smi, Rocm_smi, System_profiler]\<rparr>
                 else \<lparr>result_gb = v, report = No_message,
                         tools_run = [Nvidia_smi, Rocm_smi, System_profiler]\<rparr>))
      else \<lparr>result_gb = 0, report = No_dedicated_gpu, tools_run = [Nvidia_smi, Rocm_smi]\<rparr>)"

definition after_nvidia :: "vram_env \<Rightarrow> vram_result" where
  "after_nvidia env =
     (case rocm_smi env of
        Timeout_expired \<Rightarrow>
          \<lparr>result_gb = 0, report = Detection_timed_out, tools_run = [Nvidia_smi, Rocm_smi]\<rparr>
      | Run_error e \<Rightarrow>
          \<lparr>result_gb = 0, report = Could_not_detect, tools_run = [Nvidia_smi, Rocm_smi]\<rparr>
      | Completed returncode stdout \<Rightarrow>
          (case amd_block returncode stdout of
             Some v \<Rightarrow> \<lparr>result_gb = v, report = Detected_amd, tools_run = [Nvidia_smi, Rocm_smi]\<rparr>
           | None \<Rightarrow> after_amd env))"

definition detect_vram :: "vram_env \<Rightarrow> vram_result" where
  "detect_vram env =
     (case nvidia_smi env of
        Timeout_expired \<Rightarrow>
          \<lparr>result_gb = 0, report = Detection_timed_out, tools_run = [Nvidia_smi]\<rparr>
      | Run_error e \<Rightarrow>
          \<lparr>result_gb = 0, report = Could_not_detect, tools_run = [Nvidia_smi]\<rparr>
      | Completed returncode stdout \<Rightarrow>
          (case nvidia_block returncode stdout of
             Inl e \<Rightarrow>
               \<lparr>result_gb = 0, report = Could_not_detect, tools_run = [Nvidia_smi]\<rparr>
           | Inr (Some v) \<Rightarrow> \<lparr>result_gb = v, report = Detected_nvidia, tools_run = [Nvidia_smi]\<rparr>
           | Inr None \<Rightarrow> after_nvidia env))"





section \<open>System information and model recommendation\<close>

text \<open>\<^verbatim>\<open>SystemChecker.get_system_info\<close>: \<open>psutil_memory\<close> is the total and the available
  memory in bytes as \<^verbatim>\<open>psutil.virtual_memory()\<close> gives them, absent when psutil is not
  installed or the call raises.\<close>

record host =
  psutil_memory :: "(int \<times> int) option"
  gpu :: vram_env

record system_info =
  ram_total_gb :: real
  ram_available_gb :: real
  vram_gb :: real

definition get_system_info :: "host \<Rightarrow> system_info" where
  "get_system_info h =
     (case psutil_memory h of
        Some (ram_total, ram_available) \<Rightarrow>
          \<lparr>ram_total_gb = real_of_int ram_total / 1024 ^ 3,
            ram_available_gb = real_of_int ram_available / 1024 ^ 3,
            vram_gb = result_gb (detect_vram (gpu h))\<rparr>
      | None \<Rightarrow>
          \<lparr>ram_total_gb = 4.0, ram_available_gb = 2.0,
            vram_gb = result_gb (detect_vram (gpu h))\<rparr>)"

record model_info =
  name :: string
  size_gb :: real
  description :: string

definition get_recommended_models :: "real \<Rightarrow> real \<Rightarrow> model_info list" where
  "get_recommended_models vram ram =
     (if vram \<ge> 8 then
        [] @ [\<lparr>name = ''llama2'', size_gb = 3.8,
                description = ''Good balance of performance and quality''\<rparr>,
              \<lparr>name = ''mistral'', size_gb = 4.1,
                description = ''Excellent for coding and reasoning''\<rparr>,
              \<lparr>name = ''codellama:13b'', size_gb = 7.3,
                description = ''Specialized for programming''\<rparr>]
      else if vram \<ge> 4 then
        [] @ [\<lparr>name = ''llama2:7b'', size_gb = 3.8, description = ''Standard 7B model''\<rparr>,
              \<lparr>name = ''gemma:7b'', size_gb = 4.8, description = ''Google's efficient model''\<rparr>,
              \<lparr>name = ''mistral'', size_gb = 4.1, description = ''Fast and capable''\<rparr>]
      else if vram > 0 \<or> ram \<ge> 8 then
        [] @ [\<lparr>name = ''llama2:3b'', size_gb = 1.9, description = ''Lightweight but capable''\<rparr>,
              \<lparr>name = ''gemma:2b'', size_gb = 1.6,
                description = ''Very fast, minimal resources''\<rparr>,
              \<lparr>name = ''phi'', size_gb = 1.6,
                description = ''Microsoft's small but smart model''\<rparr>]
      else
        [] @ [\<lparr>name = ''tinyllama'', size_gb = 0.5, description = ''Smallest usable model''\<rparr>,
              \<lparr>name = ''phi:mini'', size_gb = 1.4, description = ''Mini version of Phi''\<rparr>,
              \<lparr>name = ''gemma:2b'', size_gb = 1.6, description = ''Efficient 2B model''\<rparr>])"

subsection \<open>Installing a recommended model\<close>

text \<open>What the program prints, by the \<^verbatim>\<open>AmigaOSStyle\<close> method that prints it;
  \<open>Plain\<close> is a bare \<^verbatim>\<open>print\<close>. Three lines hold formatted numbers and are kept
  as their arguments.\<close>

datatype console_line =
    Header string
  | Info string
  | Warning string
  | Error string
  | Success string
  | Plain string
  | Vram_report vram_message
  | Detected_system real real
  | Menu_entry nat model_info

text \<open>\<^verbatim>\<open>ollama pull\<close> as \<^verbatim>\<open>install_specific_model\<close> sees it: \<^verbatim>\<open>Popen\<close> raises,
  or the process exits, having written the lines \<^verbatim>\<open>readline\<close> returns, with a
  return code and an error output.\<close>

datatype pull_result = Pull_raises string | Pull_exit "string list" int string

definition install_specific_model ::
  "(string \<Rightarrow> pull_result) \<Rightarrow> string \<Rightarrow> console_line list \<times> string option" where
  "install_specific_model pull model_name =
     (let intro = [Header (''INSTALLING MODEL: '' @ model_name),
                   Warning ''This may take several minutes depending on your internet connection...'']
      in case pull model_name of
           Pull_raises e \<Rightarrow> (intro @ [Error (''Error installing model: '' @ e)], None)
         | Pull_exit lines returncode stderr \<Rightarrow>
             (let progress = map (\<lambda>l. Plain (strip l)) (filter (\<lambda>l. l \<noteq> []) lines)
              in if returncode = 0
                 then (intro @ progress @ [Success (''Successfully installed '' @ model_name)],
                       Some model_name)
                 else (intro @ progress
                         @ [Error (''Failed to install '' @ model_name @ '': '' @ stderr)],
                       None)))"

text \<open>The console: each \<^verbatim>\<open>input()\<close> returns the next line or is interrupted; with
  no line left it raises EOFError, which \<^verbatim>\<open>install_recommended_models\<close> does not
  catch.\<close>

datatype input_event = Line string | Keyboard_interrupt

type_synonym selection = "console_line list \<times> (py_error + string option)"

definition printed :: "console_line \<Rightarrow> selection \<Rightarrow> selection" where
  "printed out r = (out # fst r, snd r)"

fun select_loop ::
  "model_info list \<Rightarrow> (string \<Rightarrow> pull_result) \<Rightarrow> input_event list \<Rightarrow> selection" where
  "select_loop recommendations pull [] = ([], Inl EOFError)"
| "select_loop recommendations pull (Keyboard_interrupt # rest) = ([], Inr None)"
| "select_loop recommendations pull (Line l # rest) =
     (let choice = strip l
      in if choice = ''5'' then ([], Inr None)
         else if choice = ''4'' then
           (case rest of
              [] \<Rightarrow> ([], Inl EOFError)
            | Keyboard_interrupt # rest' \<Rightarrow> ([], Inr None)
            | Line n # rest' \<Rightarrow>
                (if strip n \<noteq> []
                 then (let r = install_specific_model pull (strip n) in (fst r, Inr (snd r)))
                 else printed (Error ''Invalid model name'')
                        (select_loop recommendations pull rest')))
         else
           (case py_int choice of
              None \<Rightarrow> printed (Error ''Please enter a number'')
                        (select_loop recommendations pull rest)
            | Some i \<Rightarrow>
                (if 0 \<le> i - 1 \<and> i - 1 < int (length recommendations)
                 then (let r = install_specific_model pull (name (recommendations ! nat (i - 1)))
                       in (fst r, Inr (snd r)))
                 else printed (Error ''Invalid selection'')
                        (select_loop recommendations pull rest))))"

definition install_recommended_models ::
  "host \<Rightarrow> (string \<Rightarrow> pull_result) \<Rightarrow> input_event list \<Rightarrow> selection" where
  "install_recommended_models h pull stdin =
     (let system = get_system_info h;
          recommendations = get_recommended_models (vram_gb system) (ram_total_gb system);
          intro = [Header ''MODEL RECOMMENDATION'',
                   Vram_report (report (detect_vram (gpu h))),
                   Detected_system (vram_gb system) (ram_total_gb system)]
      in if recommendations = []
         then (intro @ [Error ''No suitable models found for your system.''], Inr None)
         else (let r = select_loop recommendations pull stdin
               in (intro @ [Info ''Recommended models for your system:'']
                     @ map (\<lambda>i. Menu_entry (Suc i) (recommendations ! i)) [0 ..< length recommendations]
                     @ [Plain ''4. Manual model entry'', Plain ''5. Skip model installation'']
                     @ fst r,
                   snd r)))"


section \<open>JSON and the daemon's HTTP interface\<close>

text \<open>
  Python values as far as the program stores them in its preferences or receives them
  from the daemon, and JSON documents. \<^verbatim>\<open>json.dump\<close> writes a tuple and a list as an
  array; \<^verbatim>\<open>json.load\<close> and \<^verbatim>\<open>response.json()\<close> read an array as a list, and keep an
  object's last value for a key that occurs twice. A dict is the list of its items in
  insertion order, with keys that are strings. The text of a document is not modelled:
  a file or a response body holds the document itself.
\<close>

datatype pyval =
    PNone
  | PBool bool
  | PInt int
  | PFloat real
  | PStr string
  | PList "pyval list"
  | PTuple "pyval list"
  | PDict "(string \<times> pyval) list"

datatype json =
    JNull
  | JBool bool
  | JInt int
  | JFloat real
  | JString string
  | JArray "json list"
  | JObject "(string \<times> json) list"

text \<open>\<^verbatim>\<open>d[k] = v\<close> is \<open>AList.update k v d\<close>: the value is replaced in place, or the
  item is added at the end. \<^verbatim>\<open>d.update(other)\<close> stores the items of \<open>other\<close> in order.\<close>

definition dict_update :: "(string \<times> 'v) list \<Rightarrow> (string \<times> 'v) list \<Rightarrow> (string \<times> 'v) list" where
  "dict_update d other = fold (\<lambda>kv. AList.update (fst kv) (snd kv)) other d"

text \<open>\<^verbatim>\<open>d.get(k, default)\<close>.\<close>

definition dict_get :: "(string \<times> 'v) list \<Rightarrow> string \<Rightarrow> 'v \<Rightarrow> 'v" where
  "dict_get d k dflt = (case map_of d k of None \<Rightarrow> dflt | Some v \<Rightarrow> v)"

fun json_dump :: "pyval \<Rightarrow> json" where
  "json_dump PNone = JNull"
| "json_dump (PBool b) = JBool b"
| "json_dump (PInt i) = JInt i"
| "json_dump (PFloat x) = JFloat x"
| "json_dump (PStr s) = JString s"
| "json_dump (PList vs) = JArray (map json_dump vs)"
| "json_dump (PTuple vs) = JArray (map json_dump vs)"
| "json_dump (PDict items) = JObject (map (map_prod id json_dump) items)"

fun json_load :: "json \<Rightarrow> pyval" where
  "json_load JNull = PNone"
| "json_load (JBool b) = PBool b"
| "json_load (JInt i) = PInt i"
| "json_load (JFloat x) = PFloat x"
| "json_load (JString s) = PStr s"
| "json_load (JArray js) = PList (map json_load js)"
| "json_load (JObject members) = PDict (dict_update [] (map (map_prod id json_load) members))"

text \<open>A value with every tuple in it replaced by the list of its elements, which is
  what a value comes back as from JSON. A value is well formed when no dict in it has
  a key twice, as in every Python dict.\<close>

fun as_lists :: "pyval \<Rightarrow> pyval" where
  "as_lists PNone = PNone"
| "as_lists (PBool b) = PBool b"
| "as_lists (PInt i) = PInt i"
| "as_lists (PFloat x) = PFloat x"
| "as_lists (PStr s) = PStr s"
| "as_lists (PList vs) = PList (map as_lists vs)"
| "as_lists (PTuple vs) = PList (map as_lists vs)"
| "as_lists (PDict items) = PDict (map (map_prod id as_lists) items)"

fun well_formed :: "pyval \<Rightarrow> bool" where
  "well_formed (PList vs) = list_all well_formed vs"
| "well_formed (PTuple vs) = list_all well_formed vs"
| "well_formed (PDict items) =
     (distinct (map fst items) \<and> list_all (\<lambda>kv. well_formed (snd kv)) items)"
| "well_formed v = True"

text \<open>\<^verbatim>\<open>type(v).__name__\<close>, for the text of an AttributeError.\<close>

fun type_name :: "pyval \<Rightarrow> string" where
  "type_name PNone = ''NoneType''"
| "type_name (PBool b) = ''bool''"
| "type_name (PInt i) = ''int''"
| "type_name (PFloat x) = ''float''"
| "type_name (PStr s) = ''str''"
| "type_name (PList vs) = ''list''"
| "type_name (PTuple vs) = ''tuple''"
| "type_name (PDict items) = ''dict''"

definition no_attribute_get :: "pyval \<Rightarrow> string" where
  "no_attribute_get v =
     [CHR 0x27] @ type_name v @ [CHR 0x27] @ '' object has no attribute '' @ [CHR 0x27] @ ''get''
       @ [CHR 0x27]"

subsection \<open>Requests and their outcomes\<close>

datatype http_method = GET | POST

record http_request =
  meth :: http_method
  url :: string
  body :: "pyval option"
  timeout :: nat

text \<open>What \<^verbatim>\<open>requests.get\<close> or \<^verbatim>\<open>requests.post\<close> gives: an exception with its text
  (\<^verbatim>\<open>requests.exceptions.ConnectionError\<close>, which both callers test first and which
  includes a connect timeout; \<^verbatim>\<open>requests.exceptions.Timeout\<close> otherwise; any other
  exception), or a response with a status code and a body. \<^verbatim>\<open>response.json()\<close> raises
  on a body that is not JSON.\<close>

datatype http_body = Invalid_json string | Json json

datatype http_outcome =
    Connection_error string
  | Timeout string
  | Other_exception string
  | Response nat http_body

definition tags_url :: string where
  "tags_url = ''http://localhost:11434/api/tags''"

definition generate_url :: string where
  "generate_url = ''http://localhost:11434/api/generate''"

definition get_tags :: "nat \<Rightarrow> http_request" where
  "get_tags seconds = \<lparr>meth = GET, url = tags_url, body = None, timeout = seconds\<rparr>"

text \<open>The effects of the server functions, in the order they happen. The lines they
  print are left out.\<close>

datatype io_event =
    Http http_request
  | Sleep nat
  | Run_command "string list"
  | Popen "string list"
  | Communicate
  | Terminate

subsection \<open>Listing the models\<close>


definition before :: "io_event list \<Rightarrow> io_event list \<times> 'a \<Rightarrow> io_event list \<times> 'a" where
  "before evs r = (evs @ fst r, snd r)"

text \<open>An exception by the \<^verbatim>\<open>except\<close> clause that catches it.\<close>

datatype raised =
    Raised_connection_error string
  | Raised_timeout string
  | Raised_exception string








subsection \<open>Starting the server\<close>

text \<open>\<^verbatim>\<open>start_ollama_server\<close>. Its inputs: the outcome of the first probe; whether
  stopping old processes raises; whether \<^verbatim>\<open>Popen\<close> raises; whether the process has
  exited after the five seconds; the outcome of the probe of each attempt of the
  polling loop; and whether the process is still running when the handler of a
  connection error of that attempt polls it.\<close>

record server_env =
  win32 :: bool
  first_probe :: http_outcome
  kill_raises :: bool
  popen_raises :: bool
  exited_early :: bool
  probe :: "nat \<Rightarrow> http_outcome"
  running :: "nat \<Rightarrow> bool"

definition max_attempts :: nat where
  "max_attempts = 45"

text \<open>The polling loop: \<open>Some b\<close> is \<^verbatim>\<open>return b\<close> inside the loop, \<open>None\<close> the end of
  the loop.\<close>

function wait_loop :: "server_env \<Rightarrow> nat \<Rightarrow> io_event list \<times> bool option" where
  "wait_loop env attempt =
     (if attempt < max_attempts
      then (case probe env attempt of
              Response status_code content \<Rightarrow>
                (if status_code = 200
                 then ([Http (get_tags 2), Sleep 2], Some True)
                 else before [Http (get_tags 2)] (wait_loop env (Suc attempt)))
            | Connection_error e \<Rightarrow>
                (if \<not> running env attempt
                 then ([Http (get_tags 2)], Some False)
                 else before [Http (get_tags 2), Sleep 1] (wait_loop env (Suc attempt)))
            | Timeout e \<Rightarrow> before [Http (get_tags 2), Sleep 1] (wait_loop env (Suc attempt))
            | Other_exception e \<Rightarrow> before [Http (get_tags 2), Sleep 1] (wait_loop env (Suc attempt)))
      else ([], None))"
  by pat_completeness auto
termination
  by (relation "measure (\<lambda>(env, attempt). max_attempts - attempt)") auto

declare wait_loop.simps [simp del]


text \<open>The loop and what follows it: when the loop ends without a \<^verbatim>\<open>return\<close>, the
  function tries \<^verbatim>\<open>process.communicate(timeout=1)\<close>, calls \<^verbatim>\<open>process.terminate()\<close>
  and returns False.\<close>

definition poll_server :: "server_env \<Rightarrow> io_event list \<times> bool" where
  "poll_server env =
     (case wait_loop env 0 of
        (evs, Some b) \<Rightarrow> (evs, b)
      | (evs, None) \<Rightarrow> (evs @ [Communicate, Terminate], False))"


definition already_running :: "http_outcome \<Rightarrow> bool" where
  "already_running r = (case r of Response status_code content \<Rightarrow> status_code = 200 | _ \<Rightarrow> False)"


text \<open>What an attempt of the polling loop can meet, and the count of requests among
  the events.\<close>

definition process_died :: "server_env \<Rightarrow> nat \<Rightarrow> bool" where
  "process_died env i =
     (case probe env i of
        Connection_error e \<Rightarrow> \<not> running env i
      | Timeout e \<Rightarrow> False
      | Other_exception e \<Rightarrow> False
      | Response status_code content \<Rightarrow> False)"

definition raised_running :: "server_env \<Rightarrow> nat \<Rightarrow> bool" where
  "raised_running env i =
     (case probe env i of
        Connection_error e \<Rightarrow> running env i
      | Timeout e \<Rightarrow> True
      | Other_exception e \<Rightarrow> True
      | Response status_code content \<Rightarrow> False)"

text \<open>Three servers for the examples below: one that refuses every connection while
  its process keeps running, one whose process has exited when the first connection is
  refused, and one that answers every probe with status 503.\<close>

definition refusing_server :: server_env where
  "refusing_server =
     \<lparr>win32 = False, first_probe = Connection_error ''refused'', kill_raises = False,
       popen_raises = False, exited_early = False,
       probe = (\<lambda>i. Connection_error ''refused''), running = (\<lambda>i. True)\<rparr>"

definition dead_server :: server_env where
  "dead_server = refusing_server\<lparr>running := (\<lambda>i. False)\<rparr>"

definition busy_server :: server_env where
  "busy_server = refusing_server\<lparr>probe := (\<lambda>i. Response 503 (Invalid_json ''busy''))\<rparr>"

fun is_http :: "io_event \<Rightarrow> bool" where
  "is_http (Http r) = True"
| "is_http e = False"

definition count_probes :: "io_event list \<Rightarrow> nat" where
  "count_probes evs = length (filter is_http evs)"


section \<open>The chat window\<close>

text \<open>
  The state of a \<^verbatim>\<open>ChatGUI\<close> as far as its handlers read or write it. A widget is
  kept by what the handlers set: the chat log by the messages added (the tag's colour
  and font, which \<^verbatim>\<open>add_message\<close> reads from the preferences, are presentation and
  are not kept), a button by whether its state is \<^verbatim>\<open>tk.NORMAL\<close>, the status label by
  its text and colour. \<open>uploaded_content\<close> is absent until a file has been uploaded
  (\<^verbatim>\<open>hasattr(self, 'uploaded_content')\<close>). \<open>threads\<close> holds the argument of every
  worker thread started and not yet finished, \<open>after_queue\<close> the calls scheduled with
  \<^verbatim>\<open>self.root.after(0, ...)\<close> and not yet run by the event loop, \<open>dialogs\<close> the
  \<^verbatim>\<open>messagebox.showerror\<close> calls made, as title and text.
\<close>

record chat_entry =
  sender :: string
  msg :: pyval
  color :: "string option"

datatype after_call = Display_ai_response pyval | Display_error string

record gui =
  model_name :: string
  config :: "(string \<times> pyval) list"
  chat_text :: "chat_entry list"
  input_entry :: string
  send_btn :: bool
  upload_btn :: bool
  status_label :: "string \<times> string"
  uploaded_content :: "string option"
  threads :: "string list"
  after_queue :: "after_call list"
  dialogs :: "(string \<times> string) list"

subsection \<open>Preferences\<close>

definition default_config :: "(string \<times> pyval) list" where
  "default_config =
     [(''user_font'', PTuple [PStr ''Arial'', PInt 12]),
      (''user_color'', PStr ''#00ff00''),
      (''agent_font'', PTuple [PStr ''Arial'', PInt 12]),
      (''agent_color'', PStr ''#ff4444''),
      (''bg_color'', PStr ''#2b2b2b''),
      (''text_color'', PStr ''#ffffff'')]"

text \<open>The preferences after the user has chosen another font for their own messages
  and another colour for the agent's in the configuration window.\<close>

definition custom_config :: "(string \<times> pyval) list" where
  "custom_config =
     [(''user_font'', PTuple [PStr ''Courier New'', PInt 14]),
      (''user_color'', PStr ''#00ff00''),
      (''agent_font'', PTuple [PStr ''Arial'', PInt 12]),
      (''agent_color'', PStr ''#00ffff''),
      (''bg_color'', PStr ''#2b2b2b''),
      (''text_color'', PStr ''#ffffff'')]"

text \<open>The file \<^verbatim>\<open>chat_config.json\<close>: missing; present but not readable as JSON (or
  not readable at all), so that \<^verbatim>\<open>open\<close> or \<^verbatim>\<open>json.load\<close> raises; or holding a JSON
  object. \<^verbatim>\<open>save_config\<close> writes nothing else, and a file holding another JSON value
  is not a value of the model.\<close>

datatype config_file = Missing | Unreadable | Json_object "(string \<times> json) list"

text \<open>\<^verbatim>\<open>load_config\<close> swallows every exception.\<close>

definition load_config :: "(string \<times> pyval) list \<Rightarrow> config_file \<Rightarrow> (string \<times> pyval) list" where
  "load_config cfg file =
     (case file of
        Missing \<Rightarrow> cfg
      | Unreadable \<Rightarrow> cfg
      | Json_object members \<Rightarrow>
          (case json_load (JObject members) of
             PDict saved_config \<Rightarrow> dict_update cfg saved_config
           | _ \<Rightarrow> cfg))"

text \<open>\<^verbatim>\<open>save_config\<close> swallows every exception too: when the file cannot be opened
  for writing it stays as it was.\<close>

definition save_config :: "(string \<times> pyval) list \<Rightarrow> bool \<Rightarrow> config_file \<Rightarrow> config_file" where
  "save_config cfg writable file =
     (if writable
      then (case json_dump (PDict cfg) of JObject members \<Rightarrow> Json_object members | _ \<Rightarrow> file)
      else file)"

text \<open>The state \<^verbatim>\<open>ChatGUI.__init__\<close> builds.\<close>

definition init_gui :: "string \<Rightarrow> config_file \<Rightarrow> gui" where
  "init_gui model file =
     \<lparr>model_name = model,
       config = load_config default_config file,
       chat_text = [],
       input_entry = [],
       send_btn = True,
       upload_btn = True,
       status_label = (''Ready'', ''#00ff00''),
       uploaded_content = None,
       threads = [],
       after_queue = [],
       dialogs = []\<rparr>"

subsection \<open>Handlers\<close>

definition add_message :: "gui \<Rightarrow> string \<Rightarrow> pyval \<Rightarrow> string option \<Rightarrow> gui" where
  "add_message g who message colour =
     g\<lparr>chat_text := chat_text g @ [\<lparr>sender = who, msg = message, color = colour\<rparr>]\<rparr>"

definition clear_chat :: "gui \<Rightarrow> gui" where
  "clear_chat g = add_message (g\<lparr>chat_text := []\<rparr>) ''System'' (PStr ''Chat cleared'') (Some ''#ffff00'')"

definition send_message :: "gui \<Rightarrow> gui" where
  "send_message g =
     (let user_input = strip (input_entry g)
      in if user_input = [] then g
         else (add_message (g\<lparr>input_entry := []\<rparr>) ''You'' (PStr user_input) None)
                \<lparr>status_label := (''Thinking...'', ''#ffff00''),
                  send_btn := False,
                  upload_btn := False,
                  threads := threads g @ [user_input]\<rparr>)"

definition display_ai_response :: "gui \<Rightarrow> pyval \<Rightarrow> gui" where
  "display_ai_response g response_text =
     (add_message g ''Agent'' response_text None)
       \<lparr>status_label := (''Ready'', ''#00ff00''), send_btn := True, upload_btn := True\<rparr>"

definition display_error :: "gui \<Rightarrow> string \<Rightarrow> gui" where
  "display_error g error_msg =
     (add_message g ''System'' (PStr error_msg) (Some ''#ff4444''))
       \<lparr>status_label := (''Error'', ''#ff4444''), send_btn := True, upload_btn := True\<rparr>"

text \<open>\<^verbatim>\<open>upload_file\<close>: \<open>file_path\<close> is what the file dialog returns (empty when it is
  cancelled), \<open>Read_error\<close> an exception of \<^verbatim>\<open>open\<close> or \<^verbatim>\<open>read\<close> with its text. The
  paper clip of the message is a character above 255 and is written as its UTF-8
  bytes.\<close>

datatype read_result = Read_error string | Read_ok string

definition paper_clip :: string where
  "paper_clip = [CHR 0xF0, CHR 0x9F, CHR 0x93, CHR 0x8E]"

definition upload_file :: "gui \<Rightarrow> string \<Rightarrow> read_result \<Rightarrow> gui" where
  "upload_file g file_path r =
     (if file_path = [] then g
      else (case r of
              Read_error e \<Rightarrow>
                g\<lparr>dialogs := dialogs g @ [(''Upload Error'', ''Could not read file: '' @ e)]\<rparr>
            | Read_ok text \<Rightarrow>
                (add_message g ''System''
                   (PStr (paper_clip @ '' Uploaded file: '' @ basename file_path
                            @ ''\<newline>Content preview: '' @ take 200 text @ ''...''))
                   (Some ''#ffff00''))
                  \<lparr>uploaded_content := Some text,
                    status_label := (''File uploaded: '' @ basename file_path, ''#ffff00'')\<rparr>))"

subsection \<open>The worker thread\<close>

definition chat_context :: "gui \<Rightarrow> string \<Rightarrow> string" where
  "chat_context g user_input =
     (case uploaded_content g of
        None \<Rightarrow> user_input
      | Some text \<Rightarrow>
          ''File content: '' @ text @ ''\<newline>\<newline>User question: '' @ user_input)"

definition generate_request :: "string \<Rightarrow> string \<Rightarrow> http_request" where
  "generate_request model prompt =
     \<lparr>meth = POST,
       url = generate_url,
       body = Some (PDict [(''model'', PStr model),
                           (''prompt'', PStr prompt),
                           (''stream'', PBool False),
                           (''options'', PDict [(''temperature'', PFloat 0.7),
                                                (''num_predict'', PInt 1000),
                                                (''num_gpu'', PInt 50),
                                                (''main_gpu'', PInt 0),
                                                (''num_thread'', PInt 8)])]),
       timeout = 120\<rparr>"

text \<open>The body of the \<^verbatim>\<open>try\<close> of \<^verbatim>\<open>process_ai_response\<close>, given the outcome of the
  request: \<open>Inl\<close> is an exception raised inside it, with its text, \<open>Inr\<close> the call it
  schedules.\<close>

definition handle_response :: "http_outcome \<Rightarrow> string + after_call" where
  "handle_response r =
     (case r of
        Connection_error e \<Rightarrow> Inl e
      | Timeout e \<Rightarrow> Inl e
      | Other_exception e \<Rightarrow> Inl e
      | Response status_code content \<Rightarrow>
          (if status_code = 200
           then (case content of
                   Invalid_json e \<Rightarrow> Inl e
                 | Json j \<Rightarrow>
                     (case json_load j of
                        PDict data \<Rightarrow>
                          Inr (Display_ai_response
                                 (dict_get data ''response'' (PStr ''No response received'')))
                      | v \<Rightarrow> Inl (no_attribute_get v)))
           else Inr (Display_error (''API error: '' @ str_nat status_code))))"

text \<open>\<^verbatim>\<open>process_ai_response\<close>: the requests it sends and how it ends, \<open>Inl\<close> with an
  exception that leaves it, \<open>Inr\<close> with the call it has scheduled. \<open>net\<close> answers a
  request.\<close>

definition process_ai_response ::
  "gui \<Rightarrow> string \<Rightarrow> (http_request \<Rightarrow> http_outcome) \<Rightarrow> http_request list \<times> (string + after_call)" where
  "process_ai_response g user_input net =
     (let request = generate_request (model_name g) (chat_context g user_input)
      in ([request],
          (case handle_response (net request) of
             Inl e \<Rightarrow> Inr (Display_error (''Error: '' @ e))
           | Inr call \<Rightarrow> Inr call)))"

text \<open>A service that answers the request with status 200 and a page that is not
  JSON; the text is that of the exception \<^verbatim>\<open>response.json()\<close> raises.\<close>

definition html_reply :: "http_request \<Rightarrow> http_outcome" where
  "html_reply request = Response 200 (Invalid_json ''Expecting value: line 1 column 1 (char 0)'')"

subsection \<open>The event loop\<close>

text \<open>
  What can happen to the window: the user edits the input field, presses Return in it
  (bound to \<^verbatim>\<open>send_message\<close>), clicks a button (Tk runs the command of a button only
  while its state is normal), a worker thread runs \<^verbatim>\<open>process_ai_response\<close> on the
  outcome the network gives its request, or the event loop runs the next scheduled
  call. A thread's exception would leave the thread only; it schedules nothing.
\<close>

datatype gui_event =
    Edit_input string
  | Press_return
  | Click_send
  | Click_upload string read_result
  | Click_clear
  | Worker_runs nat http_outcome
  | Run_scheduled

definition run_call :: "gui \<Rightarrow> after_call \<Rightarrow> gui" where
  "run_call g call =
     (case call of
        Display_ai_response response_text \<Rightarrow> display_ai_response g response_text
      | Display_error error_msg \<Rightarrow> display_error g error_msg)"

definition drop_nth :: "nat \<Rightarrow> 'a list \<Rightarrow> 'a list" where
  "drop_nth i xs = take i xs @ drop (Suc i) xs"

definition step :: "gui \<Rightarrow> gui_event \<Rightarrow> gui" where
  "step g e =
     (case e of
        Edit_input s \<Rightarrow> g\<lparr>input_entry := s\<rparr>
      | Press_return \<Rightarrow> send_message g
      | Click_send \<Rightarrow> (if send_btn g then send_message g else g)
      | Click_upload file_path r \<Rightarrow> (if upload_btn g then upload_file g file_path r else g)
      | Click_clear \<Rightarrow> clear_chat g
      | Worker_runs i outcome \<Rightarrow>
          (if i < length (threads g)
           then (case snd (process_ai_response g (threads g ! i) (\<lambda>request. outcome)) of
                   Inl e \<Rightarrow> g\<lparr>threads := drop_nth i (threads g)\<rparr>
                 | Inr call \<Rightarrow>
                     g\<lparr>threads := drop_nth i (threads g), after_queue := after_queue g @ [call]\<rparr>)
           else g)
      | Run_scheduled \<Rightarrow>
          (case after_queue g of
             [] \<Rightarrow> g
           | call # calls \<Rightarrow> run_call (g\<lparr>after_queue := calls\<rparr>) call))"

definition run :: "gui \<Rightarrow> gui_event list \<Rightarrow> gui" where
  "run g events = foldl step g events"

text \<open>The chat requests in flight: sent to a worker thread and not yet displayed.\<close>

definition in_flight :: "gui \<Rightarrow> nat" where
  "in_flight g = length (threads g) + length (after_queue g)"

text \<open>The state the Send button keeps: at most one request in flight, and none while
  the button is enabled.\<close>

definition serial :: "gui \<Rightarrow> bool" where
  "serial g = (in_flight g \<le> 1 \<and> (send_btn g \<longrightarrow> in_flight g = 0))"


section \<open>Model recommendation: the tiers\<close>

text \<open>
  C1. For every amount of video memory and of main memory, \<^verbatim>\<open>get_recommended_models\<close>
  returns the high list (llama2, mistral, codellama:13b) when \<open>vram \<ge> 8\<close>, the medium
  list (llama2:7b, gemma:7b, mistral) when \<open>4 \<le> vram < 8\<close>, the low list (llama2:3b,
  gemma:2b, phi) when \<open>vram < 4\<close> and (\<open>vram > 0\<close> or \<open>ram \<ge> 8\<close>), and the minimal list
  (tinyllama, phi:mini, gemma:2b) in every other case.
\<close>

theorem get_recommended_models_tiers:
  "(vram \<ge> 8 \<longrightarrow>
      map name (get_recommended_models vram ram) = [''llama2'', ''mistral'', ''codellama:13b'']) \<and>
   (4 \<le> vram \<and> vram < 8 \<longrightarrow>
      map name (get_recommended_models vram ram) = [''llama2:7b'', ''gemma:7b'', ''mistral'']) \<and>
   (vram < 4 \<and> (vram > 0 \<or> ram \<ge> 8) \<longrightarrow>
      map name (get_recommended_models vram ram) = [''llama2:3b'', ''gemma:2b'', ''phi'']) \<and>
   (\<not> vram \<ge> 8 \<and> \<not> (4 \<le> vram \<and> vram < 8) \<and> \<not> (vram < 4 \<and> (vram > 0 \<or> ram \<ge> 8)) \<longrightarrow>
      map name (get_recommended_models vram ram) = [''tinyllama'', ''phi:mini'', ''gemma:2b''])"
proof (intro conjI impI)
  assume "vram \<ge> 8"
  then show "map name (get_recommended_models vram ram) = [''llama2'', ''mistral'', ''codellama:13b'']"
    by (simp add: get_recommended_models_def)
next
  assume "4 \<le> vram \<and> vram < 8"
  then show "map name (get_recommended_models vram ram) = [''llama2:7b'', ''gemma:7b'', ''mistral'']"
    by (simp add: get_recommended_models_def)
next
  assume "vram < 4 \<and> (vram > 0 \<or> ram \<ge> 8)"
  then show "map name (get_recommended_models vram ram) = [''llama2:3b'', ''gemma:2b'', ''phi'']"
    by (simp add: get_recommended_models_def)
next
  assume "\<not> vram \<ge> 8 \<and> \<not> (4 \<le> vram \<and> vram < 8) \<and> \<not> (vram < 4 \<and> (vram > 0 \<or> ram \<ge> 8))"
  then have "\<not> vram \<ge> 8" "\<not> vram \<ge> 4" "\<not> (vram > 0 \<or> ram \<ge> 8)"
    by linarith+
  then show "map name (get_recommended_models vram ram) = [''tinyllama'', ''phi:mini'', ''gemma:2b'']"
    by (simp add: get_recommended_models_def)
qed

text \<open>One machine of each tier: 8 GB of video memory; 4 GB; none but 8 GB of main
  memory; none of either.\<close>

theorem get_recommended_models_tiers_witness:
  "map name (get_recommended_models 8 0) = [''llama2'', ''mistral'', ''codellama:13b''] \<and>
   map name (get_recommended_models 4 0) = [''llama2:7b'', ''gemma:7b'', ''mistral''] \<and>
   map name (get_recommended_models 0 8) = [''llama2:3b'', ''gemma:2b'', ''phi''] \<and>
   map name (get_recommended_models 0 0) = [''tinyllama'', ''phi:mini'', ''gemma:2b'']"
  using get_recommended_models_tiers [of 8 0] get_recommended_models_tiers [of 4 0]
    get_recommended_models_tiers [of 0 8] get_recommended_models_tiers [of 0 0]
  by simp

section \<open>Model recommendation: never empty\<close>

lemma length_get_recommended_models: "length (get_recommended_models vram ram) = 3"
  by (simp add: get_recommended_models_def)

lemma not_plain_image: "Error s \<notin> (\<lambda>l. Plain (f l)) ` A"
  by blast

lemma not_menu_image: "Error s \<notin> (\<lambda>i. Menu_entry (f i) (g i)) ` A"
  by blast

lemma install_specific_model_quiet:
  "Error ''No suitable models found for your system.'' \<notin> set (fst (install_specific_model pull n))"
  by (cases "pull n") (simp_all add: install_specific_model_def Let_def not_plain_image)

lemma printed_quiet:
  "Error ''No suitable models found for your system.'' \<notin> set (fst r) \<Longrightarrow>
   e \<noteq> Error ''No suitable models found for your system.'' \<Longrightarrow>
   Error ''No suitable models found for your system.'' \<notin> set (fst (printed e r))"
  by (simp add: printed_def)

text \<open>The selection loop prints other errors only. A round of the loop reads one line
  or two, so the induction is on the number of lines left.\<close>

lemma select_loop_quiet:
  "Error ''No suitable models found for your system.'' \<notin> set (fst (select_loop recs pull stdin))"
proof (induction "length stdin" arbitrary: stdin rule: less_induct)
  case less
  let ?quiet = "\<lambda>r :: selection. Error ''No suitable models found for your system.'' \<notin> set (fst r)"
  show ?case
  proof (cases stdin)
    case Nil
    then show ?thesis by simp
  next
    case (Cons e rest)
    note outer = Cons
    have rest: "?quiet (select_loop recs pull rest)"
      using less [of rest] outer by simp
    show ?thesis
    proof (cases e)
      case Keyboard_interrupt
      with outer show ?thesis by simp
    next
      case (Line l)
      have unfold: "select_loop recs pull stdin = select_loop recs pull (Line l # rest)"
        using outer Line by simp
      show ?thesis
      proof (cases "strip l = ''5''")
        case True
        then show ?thesis unfolding unfold by simp
      next
        case five: False
        show ?thesis
        proof (cases "strip l = ''4''")
          case True
          show ?thesis
          proof (cases rest)
            case Nil
            with True show ?thesis unfolding unfold by simp
          next
            case (Cons e' rest')
            have rest': "?quiet (select_loop recs pull rest')"
              using less [of rest'] outer Cons by simp
            show ?thesis
            proof (cases e')
              case Keyboard_interrupt
              with True Cons show ?thesis unfolding unfold by simp
            next
              case (Line n)
              show ?thesis
              proof (cases "strip n = []")
                case True
                have "?quiet (printed (Error ''Invalid model name'') (select_loop recs pull rest'))"
                  by (rule printed_quiet [OF rest']) simp
                with True \<open>strip l = ''4''\<close> Cons Line show ?thesis unfolding unfold by simp
              next
                case False
                with \<open>strip l = ''4''\<close> Cons Line show ?thesis
                  unfolding unfold by (simp add: Let_def install_specific_model_quiet)
              qed
            qed
          qed
        next
          case four: False
          show ?thesis
          proof (cases "py_int (strip l)")
            case None
            have "?quiet (printed (Error ''Please enter a number'') (select_loop recs pull rest))"
              by (rule printed_quiet [OF rest]) simp
            with five four None show ?thesis unfolding unfold by simp
          next
            case (Some i)
            have "?quiet (printed (Error ''Invalid selection'') (select_loop recs pull rest))"
              by (rule printed_quiet [OF rest]) simp
            with five four Some show ?thesis
              unfolding unfold by (simp add: Let_def install_specific_model_quiet)
          qed
        qed
      qed
    qed
  qed
qed

text \<open>
  C10. \<^verbatim>\<open>get_recommended_models\<close> returns exactly three entries, so a list that is not
  empty, for every amount of video and main memory; and whatever the machine, the
  outcome of \<^verbatim>\<open>ollama pull\<close> and the lines typed, \<^verbatim>\<open>install_recommended_models\<close> never
  prints the error \<^verbatim>\<open>No suitable models found for your system.\<close> of its branch
  \<^verbatim>\<open>if not recommendations\<close>.
\<close>

theorem no_suitable_models_unreachable:
  "length (get_recommended_models vram ram) = 3 \<and>
   get_recommended_models vram ram \<noteq> [] \<and>
   Error ''No suitable models found for your system.''
     \<notin> set (fst (install_recommended_models h pull stdin))"
proof -
  have len: "\<And>v r. length (get_recommended_models v r) = 3"
    by (rule length_get_recommended_models)
  have ne: "\<And>v r. get_recommended_models v r \<noteq> []"
  proof
    fix v r
    assume "get_recommended_models v r = []"
    with len [of v r] show False by simp
  qed
  have "Error ''No suitable models found for your system.''
     \<notin> set (fst (install_recommended_models h pull stdin))"
    by (simp add: install_recommended_models_def Let_def ne select_loop_quiet not_menu_image)
  with len ne show ?thesis by simp
qed

section \<open>Sending a blank message\<close>

lemma strip_blank: "list_all py_isspace s \<Longrightarrow> strip s = []"
  by (induction s) (simp_all add: strip_def)

text \<open>
  C8. If the input field is empty or holds only whitespace, \<^verbatim>\<open>send_message\<close> returns
  with no effect: the whole state of the window is as before, so the chat log is
  unchanged, the input field is not cleared, the send and upload buttons and the status
  label are as they were, and no worker thread is started.
\<close>

theorem send_message_blank_no_effect:
  "list_all py_isspace (input_entry g) \<Longrightarrow>
     send_message g = g \<and>
     chat_text (send_message g) = chat_text g \<and>
     input_entry (send_message g) = input_entry g \<and>
     send_btn (send_message g) = send_btn g \<and>
     upload_btn (send_message g) = upload_btn g \<and>
     status_label (send_message g) = status_label g \<and>
     threads (send_message g) = threads g"
  by (simp add: send_message_def strip_blank)

text \<open>A fresh window whose input field holds two spaces.\<close>

theorem send_message_blank_no_effect_witness:
  "list_all py_isspace (input_entry ((init_gui ''llama2'' Missing)\<lparr>input_entry := ''  ''\<rparr>)) \<and>
   send_message ((init_gui ''llama2'' Missing)\<lparr>input_entry := ''  ''\<rparr>)
     = (init_gui ''llama2'' Missing)\<lparr>input_entry := ''  ''\<rparr> \<and>
   send_btn (send_message ((init_gui ''llama2'' Missing)\<lparr>input_entry := ''  ''\<rparr>)) \<and>
   threads (send_message ((init_gui ''llama2'' Missing)\<lparr>input_entry := ''  ''\<rparr>)) = []"
proof -
  have h: "list_all py_isspace (input_entry ((init_gui ''llama2'' Missing)\<lparr>input_entry := ''  ''\<rparr>))"
    by (simp add: py_isspace_def)
  show ?thesis
    using h send_message_blank_no_effect [OF h] by (simp add: init_gui_def)
qed


section \<open>The polling loop of the server start\<close>

lemma wait_loop_end: "\<not> a < max_attempts \<Longrightarrow> wait_loop env a = ([], None)"
  by (simp add: wait_loop.simps)

lemma wait_loop_200:
  "a < max_attempts \<Longrightarrow> already_running (probe env a) \<Longrightarrow>
   wait_loop env a = ([Http (get_tags 2), Sleep 2], Some True)"
  by (subst wait_loop.simps) (simp add: already_running_def split: http_outcome.splits)

lemma wait_loop_died:
  "a < max_attempts \<Longrightarrow> process_died env a \<Longrightarrow> wait_loop env a = ([Http (get_tags 2)], Some False)"
  by (subst wait_loop.simps) (simp add: process_died_def split: http_outcome.splits)

lemma wait_loop_raised:
  "a < max_attempts \<Longrightarrow> raised_running env a \<Longrightarrow>
   wait_loop env a = before [Http (get_tags 2), Sleep 1] (wait_loop env (Suc a))"
  by (subst wait_loop.simps) (simp add: raised_running_def split: http_outcome.splits)

lemma wait_loop_other:
  "a < max_attempts \<Longrightarrow> \<not> already_running (probe env a) \<Longrightarrow> \<not> process_died env a \<Longrightarrow>
   \<not> raised_running env a \<Longrightarrow>
   wait_loop env a = before [Http (get_tags 2)] (wait_loop env (Suc a))"
  by (subst wait_loop.simps)
     (simp add: already_running_def process_died_def raised_running_def split: http_outcome.splits)

lemma wait_loop_cases:
  assumes "\<not> a < max_attempts \<Longrightarrow> wait_loop env a = ([], None) \<Longrightarrow> P"
    and "a < max_attempts \<Longrightarrow> already_running (probe env a) \<Longrightarrow>
           wait_loop env a = ([Http (get_tags 2), Sleep 2], Some True) \<Longrightarrow> P"
    and "a < max_attempts \<Longrightarrow> \<not> already_running (probe env a) \<Longrightarrow> process_died env a \<Longrightarrow>
           wait_loop env a = ([Http (get_tags 2)], Some False) \<Longrightarrow> P"
    and "a < max_attempts \<Longrightarrow> \<not> already_running (probe env a) \<Longrightarrow> \<not> process_died env a \<Longrightarrow>
           raised_running env a \<Longrightarrow>
           wait_loop env a = before [Http (get_tags 2), Sleep 1] (wait_loop env (Suc a)) \<Longrightarrow> P"
    and "a < max_attempts \<Longrightarrow> \<not> already_running (probe env a) \<Longrightarrow> \<not> process_died env a \<Longrightarrow>
           \<not> raised_running env a \<Longrightarrow>
           wait_loop env a = before [Http (get_tags 2)] (wait_loop env (Suc a)) \<Longrightarrow> P"
  shows P
  using assms wait_loop_end wait_loop_200 wait_loop_died wait_loop_raised wait_loop_other
  by blast

lemma count_probes_simps [simp]:
  "count_probes [] = 0"
  "count_probes (Http r # evs) = Suc (count_probes evs)"
  "count_probes (Sleep n # evs) = count_probes evs"
  "count_probes (Communicate # evs) = count_probes evs"
  "count_probes (Terminate # evs) = count_probes evs"
  "count_probes (xs @ ys) = count_probes xs + count_probes ys"
  by (simp_all add: count_probes_def)

lemma fst_before [simp]: "fst (before evs r) = evs @ fst r"
  by (simp add: before_def)

lemma snd_before [simp]: "snd (before evs r) = snd r"
  by (simp add: before_def)

text \<open>The loop makes at most as many requests as attempts are left.\<close>

lemma wait_loop_probes: "count_probes (fst (wait_loop env a)) \<le> max_attempts - a"
proof (induction "max_attempts - a" arbitrary: a)
  case 0
  then show ?case by (simp add: wait_loop_end)
next
  case (Suc n)
  then have ih: "count_probes (fst (wait_loop env (Suc a))) \<le> max_attempts - Suc a"
    by simp
  from Suc.hyps(2) have "a < max_attempts" by simp
  with ih show ?case
    by (cases rule: wait_loop_cases [of a env]) simp_all
qed

lemma wait_loop_no_terminate: "Terminate \<notin> set (fst (wait_loop env a))"
proof (induction "max_attempts - a" arbitrary: a)
  case 0
  then show ?case by (simp add: wait_loop_end)
next
  case (Suc n)
  then have ih: "Terminate \<notin> set (fst (wait_loop env (Suc a)))"
    by simp
  then show ?case
    by (cases rule: wait_loop_cases [of a env]) simp_all
qed

lemma wait_loop_http: "Http r \<in> set (fst (wait_loop env a)) \<Longrightarrow> r = get_tags 2"
proof (induction "max_attempts - a" arbitrary: a)
  case 0
  then show ?case by (simp add: wait_loop_end)
next
  case (Suc n)
  from Suc.hyps(2) have "n = max_attempts - Suc a" by simp
  then have ih: "Http r \<in> set (fst (wait_loop env (Suc a))) \<Longrightarrow> r = get_tags 2"
    by (rule Suc.hyps(1))
  from Suc.prems ih show ?case
    by (cases rule: wait_loop_cases [of a env]) auto
qed

text \<open>Without a 200 the loop does not return True.\<close>

lemma wait_loop_not_true:
  "(\<forall>i. a \<le> i \<and> i < max_attempts \<longrightarrow> \<not> already_running (probe env i)) \<Longrightarrow>
   snd (wait_loop env a) \<noteq> Some True"
proof (induction "max_attempts - a" arbitrary: a)
  case 0
  then show ?case by (simp add: wait_loop_end)
next
  case (Suc n)
  then have ih: "snd (wait_loop env (Suc a)) \<noteq> Some True"
    by simp
  from Suc.hyps(2) have a: "a < max_attempts" by simp
  with Suc.prems have "\<not> already_running (probe env a)" by simp
  with ih show ?case
    by (cases rule: wait_loop_cases [of a env]) simp_all
qed

text \<open>Without a 200 and with the process alive at every connection error, the loop
  runs to its end.\<close>

lemma wait_loop_exhausted:
  "(\<forall>i. a \<le> i \<and> i < max_attempts \<longrightarrow> \<not> already_running (probe env i) \<and> \<not> process_died env i) \<Longrightarrow>
   snd (wait_loop env a) = None \<and> count_probes (fst (wait_loop env a)) = max_attempts - a"
proof (induction "max_attempts - a" arbitrary: a)
  case 0
  then show ?case by (simp add: wait_loop_end)
next
  case (Suc n)
  then have ih: "snd (wait_loop env (Suc a)) = None \<and>
      count_probes (fst (wait_loop env (Suc a))) = max_attempts - Suc a"
    by simp
  from Suc.hyps(2) have a: "a < max_attempts" by simp
  with Suc.prems have "\<not> already_running (probe env a)" "\<not> process_died env a" by simp_all
  with ih a show ?case
    by (cases rule: wait_loop_cases [of a env]) simp_all
qed

text \<open>The first connection error that finds the process gone ends the loop.\<close>

lemma wait_loop_death:
  "a \<le> i \<Longrightarrow> i < max_attempts \<Longrightarrow> process_died env i \<Longrightarrow>
   (\<forall>j. a \<le> j \<and> j < i \<longrightarrow> \<not> already_running (probe env j) \<and> \<not> process_died env j) \<Longrightarrow>
   snd (wait_loop env a) = Some False \<and> count_probes (fst (wait_loop env a)) = Suc i - a"
proof (induction "i - a" arbitrary: a)
  case 0
  then have "a = i" by simp
  with 0 have "wait_loop env a = ([Http (get_tags 2)], Some False)"
    by (simp add: wait_loop_died)
  with \<open>a = i\<close> show ?case by simp
next
  case (Suc n)
  then have lt: "a < i" by simp
  with Suc have ih: "snd (wait_loop env (Suc a)) = Some False \<and>
      count_probes (fst (wait_loop env (Suc a))) = Suc i - Suc a"
    by simp
  from lt Suc.prems have "\<not> already_running (probe env a)" "\<not> process_died env a" by simp_all
  moreover from lt Suc.prems have "a < max_attempts" by simp
  ultimately show ?case
    using ih lt by (cases rule: wait_loop_cases [of a env]) (simp_all add: Suc_diff_le)
qed

text \<open>Each attempt made that raised with the process running is followed by a sleep of
  one second.\<close>

lemma wait_loop_sleep:
  "a \<le> i \<Longrightarrow> i - a < count_probes (fst (wait_loop env a)) \<Longrightarrow> raised_running env i \<Longrightarrow>
   \<exists>pre post. fst (wait_loop env a) = pre @ [Http (get_tags 2), Sleep 1] @ post \<and>
     count_probes pre = i - a"
proof (induction "i - a" arbitrary: a)
  case 0
  then have ai: "a = i" by simp
  have "a < max_attempts"
  proof (rule ccontr)
    assume "\<not> a < max_attempts"
    with 0 show False by (simp add: wait_loop_end)
  qed
  with 0 ai have "wait_loop env a = before [Http (get_tags 2), Sleep 1] (wait_loop env (Suc a))"
    by (simp add: wait_loop_raised)
  then have "fst (wait_loop env a) = [] @ [Http (get_tags 2), Sleep 1] @ fst (wait_loop env (Suc a))"
    by simp
  with ai show ?case by (metis count_probes_simps(1) diff_self_eq_0)
next
  case (Suc n)
  then have lt: "a < i" by simp
  show ?case
  proof (cases rule: wait_loop_cases [of a env])
    case 1
    with Suc.prems show ?thesis by simp
  next
    case 2
    with Suc.prems lt show ?thesis by simp
  next
    case 3
    with Suc.prems lt show ?thesis by simp
  next
    case 4
    with Suc.prems lt have cnt: "i - Suc a < count_probes (fst (wait_loop env (Suc a)))"
      by simp
    have n: "n = i - Suc a" using Suc.hyps(2) by simp
    have le: "Suc a \<le> i" using lt by simp
    from Suc.hyps(1) [OF n le cnt Suc.prems(3)]
    obtain pre post where pp: "fst (wait_loop env (Suc a)) = pre @ [Http (get_tags 2), Sleep 1] @ post"
      "count_probes pre = i - Suc a"
      by blast
    with 4 have "fst (wait_loop env a) = ([Http (get_tags 2), Sleep 1] @ pre) @ [Http (get_tags 2), Sleep 1] @ post"
      by simp
    moreover have "count_probes ([Http (get_tags 2), Sleep 1] @ pre) = i - a"
      using pp lt by simp
    ultimately show ?thesis by blast
  next
    case 5
    with Suc.prems lt have cnt: "i - Suc a < count_probes (fst (wait_loop env (Suc a)))"
      by simp
    have n: "n = i - Suc a" using Suc.hyps(2) by simp
    have le: "Suc a \<le> i" using lt by simp
    from Suc.hyps(1) [OF n le cnt Suc.prems(3)]
    obtain pre post where pp: "fst (wait_loop env (Suc a)) = pre @ [Http (get_tags 2), Sleep 1] @ post"
      "count_probes pre = i - Suc a"
      by blast
    with 5 have "fst (wait_loop env a) = ([Http (get_tags 2)] @ pre) @ [Http (get_tags 2), Sleep 1] @ post"
      by simp
    moreover have "count_probes ([Http (get_tags 2)] @ pre) = i - a"
      using pp lt by simp
    ultimately show ?thesis by blast
  qed
qed

lemma poll_server_events:
  "(snd (wait_loop env 0) = None \<and> poll_server env = (fst (wait_loop env 0) @ [Communicate, Terminate], False)) \<or>
   (\<exists>b. snd (wait_loop env 0) = Some b \<and> poll_server env = (fst (wait_loop env 0), b))"
  by (cases "wait_loop env 0") (auto simp: poll_server_def split: option.splits)

lemma count_probes_poll_server:
  "count_probes (fst (poll_server env)) = count_probes (fst (wait_loop env 0))"
  using poll_server_events [of env] by auto

lemma wait_loop_busy:
  "\<forall>i. \<exists>code b. probe env i = Response code b \<and> code \<noteq> 200 \<Longrightarrow>
   set (fst (wait_loop env a)) \<subseteq> {Http (get_tags 2)} \<and> snd (wait_loop env a) = None
     \<and> count_probes (fst (wait_loop env a)) = max_attempts - a"
proof (induction "max_attempts - a" arbitrary: a)
  case 0
  then show ?case by (simp add: wait_loop_end)
next
  case (Suc n)
  from Suc.hyps(2) have n: "n = max_attempts - Suc a" by simp
  note ih = Suc.hyps(1) [OF n Suc.prems]
  from Suc.prems obtain code b where r: "probe env a = Response code b" "code \<noteq> 200"
    by blast
  from Suc.hyps(2) have a: "a < max_attempts" by simp
  from r have "\<not> already_running (probe env a)" "\<not> process_died env a" "\<not> raised_running env a"
    by (simp_all add: already_running_def process_died_def raised_running_def)
  with a have "wait_loop env a = before [Http (get_tags 2)] (wait_loop env (Suc a))"
    by (rule wait_loop_other)
  with ih a show ?case by auto
qed

text \<open>
  C2, as amended. The polling loop of \<^verbatim>\<open>start_ollama_server\<close> gives up after a fixed
  number of attempts: it probes \<^verbatim>\<open>GET /api/tags\<close> (timeout 2) at most
  \<open>max_attempts = 45\<close> times. If no attempt returns HTTP 200 it returns False: after
  all 45 probes, ending with \<^verbatim>\<open>process.terminate()\<close>, when no connection error finds
  the process exited; at once, with no further probe and without terminating, at the
  first connection error that finds the process exited. Every attempt made that raised
  an exception while the process was still running is followed by a sleep of one
  second.
\<close>

theorem poll_server_gives_up:
  "max_attempts = 45 \<and>
   count_probes (fst (poll_server env)) \<le> max_attempts \<and>
   (\<forall>r. Http r \<in> set (fst (poll_server env)) \<longrightarrow> r = get_tags 2) \<and>
   ((\<forall>i<max_attempts. \<not> already_running (probe env i)) \<longrightarrow> snd (poll_server env) = False) \<and>
   ((\<forall>i<max_attempts. \<not> already_running (probe env i) \<and> \<not> process_died env i) \<longrightarrow>
      count_probes (fst (poll_server env)) = max_attempts \<and>
      (\<exists>evs. fst (poll_server env) = evs @ [Communicate, Terminate] \<and> Terminate \<notin> set evs)) \<and>
   (\<forall>i<max_attempts.
      process_died env i \<and> (\<forall>j<i. \<not> already_running (probe env j) \<and> \<not> process_died env j) \<longrightarrow>
      snd (poll_server env) = False \<and> Terminate \<notin> set (fst (poll_server env)) \<and>
      count_probes (fst (poll_server env)) = Suc i) \<and>
   (\<forall>i. i < count_probes (fst (poll_server env)) \<and> raised_running env i \<longrightarrow>
      (\<exists>pre post. fst (poll_server env) = pre @ [Http (get_tags 2), Sleep 1] @ post \<and>
         count_probes pre = i))"
proof (intro conjI allI impI)
  show "max_attempts = 45" by (simp add: max_attempts_def)
next
  show "count_probes (fst (poll_server env)) \<le> max_attempts"
    using wait_loop_probes [of env 0] by (simp add: count_probes_poll_server)
next
  fix r
  assume "Http r \<in> set (fst (poll_server env))"
  then have "Http r \<in> set (fst (wait_loop env 0))"
    using poll_server_events [of env] by auto
  then show "r = get_tags 2" by (rule wait_loop_http)
next
  assume "\<forall>i<max_attempts. \<not> already_running (probe env i)"
  then have "snd (wait_loop env 0) \<noteq> Some True"
    by (intro wait_loop_not_true) simp
  then show "snd (poll_server env) = False"
    using poll_server_events [of env] by auto
next
  assume "\<forall>i<max_attempts. \<not> already_running (probe env i) \<and> \<not> process_died env i"
  then have ex: "snd (wait_loop env 0) = None \<and> count_probes (fst (wait_loop env 0)) = max_attempts - 0"
    by (intro wait_loop_exhausted) simp
  then show "count_probes (fst (poll_server env)) = max_attempts"
    by (simp add: count_probes_poll_server)
  from ex have "fst (poll_server env) = fst (wait_loop env 0) @ [Communicate, Terminate]"
    using poll_server_events [of env] by auto
  then show "\<exists>evs. fst (poll_server env) = evs @ [Communicate, Terminate] \<and> Terminate \<notin> set evs"
    using wait_loop_no_terminate [of env 0] by blast
next
  fix i
  assume i: "i < max_attempts"
    and d: "process_died env i \<and> (\<forall>j<i. \<not> already_running (probe env j) \<and> \<not> process_died env j)"
  then have "snd (wait_loop env 0) = Some False \<and> count_probes (fst (wait_loop env 0)) = Suc i - 0"
    by (intro wait_loop_death) simp_all
  then have w: "snd (wait_loop env 0) = Some False" "count_probes (fst (wait_loop env 0)) = Suc i"
    by simp_all
  then have p: "poll_server env = (fst (wait_loop env 0), False)"
    using poll_server_events [of env] by auto
  show "snd (poll_server env) = False" using p by simp
  show "Terminate \<notin> set (fst (poll_server env))"
    using p wait_loop_no_terminate [of env 0] by simp
  show "count_probes (fst (poll_server env)) = Suc i"
    using p w by simp
next
  fix i
  assume a: "i < count_probes (fst (poll_server env)) \<and> raised_running env i"
  then have "i - 0 < count_probes (fst (wait_loop env 0))"
    by (simp add: count_probes_poll_server)
  with a have "\<exists>pre post. fst (wait_loop env 0) = pre @ [Http (get_tags 2), Sleep 1] @ post \<and>
     count_probes pre = i - 0"
    by (intro wait_loop_sleep) simp_all
  then obtain pre post where pp: "fst (wait_loop env 0) = pre @ [Http (get_tags 2), Sleep 1] @ post"
    "count_probes pre = i"
    by auto
  from poll_server_events [of env]
  obtain tail where "fst (poll_server env) = fst (wait_loop env 0) @ tail"
    by auto
  with pp have "fst (poll_server env) = pre @ [Http (get_tags 2), Sleep 1] @ (post @ tail)"
    by simp
  with pp show "\<exists>pre post. fst (poll_server env) = pre @ [Http (get_tags 2), Sleep 1] @ post \<and>
         count_probes pre = i"
    by blast
qed

text \<open>A server that refuses all 45 connections while its process runs, and one whose
  process is gone at the first refusal.\<close>

theorem poll_server_gives_up_witness:
  "snd (poll_server refusing_server) = False \<and>
   count_probes (fst (poll_server refusing_server)) = 45 \<and>
   (\<exists>evs. fst (poll_server refusing_server) = evs @ [Communicate, Terminate] \<and> Terminate \<notin> set evs) \<and>
   (\<exists>pre post. fst (poll_server refusing_server) = pre @ [Http (get_tags 2), Sleep 1] @ post \<and>
      count_probes pre = 44) \<and>
   snd (poll_server dead_server) = False \<and>
   Terminate \<notin> set (fst (poll_server dead_server)) \<and>
   count_probes (fst (poll_server dead_server)) = 1"
proof -
  have no200: "\<forall>i<max_attempts. \<not> already_running (probe refusing_server i)"
    by (simp add: refusing_server_def already_running_def)
  have alive: "\<forall>i<max_attempts.
      \<not> already_running (probe refusing_server i) \<and> \<not> process_died refusing_server i"
    by (simp add: refusing_server_def already_running_def process_died_def)
  have raised: "raised_running refusing_server 44"
    by (simp add: refusing_server_def raised_running_def)
  have died: "process_died dead_server 0 \<and>
      (\<forall>j<0. \<not> already_running (probe dead_server j) \<and> \<not> process_died dead_server j)"
    by (simp add: dead_server_def refusing_server_def process_died_def)
  note t = poll_server_gives_up [of refusing_server]
  note d = poll_server_gives_up [of dead_server]
  from t no200 have 1: "snd (poll_server refusing_server) = False" by blast
  from t alive have 2: "count_probes (fst (poll_server refusing_server)) = max_attempts"
    and 3: "\<exists>evs. fst (poll_server refusing_server) = evs @ [Communicate, Terminate] \<and> Terminate \<notin> set evs"
    by blast+
  from 2 have "44 < count_probes (fst (poll_server refusing_server))"
    by (simp add: max_attempts_def)
  with t raised have 4: "\<exists>pre post. fst (poll_server refusing_server) = pre @ [Http (get_tags 2), Sleep 1] @ post \<and>
      count_probes pre = 44"
    by blast
  from d have "\<forall>i<max_attempts.
      process_died dead_server i \<and>
      (\<forall>j<i. \<not> already_running (probe dead_server j) \<and> \<not> process_died dead_server j) \<longrightarrow>
      snd (poll_server dead_server) = False \<and> Terminate \<notin> set (fst (poll_server dead_server)) \<and>
      count_probes (fst (poll_server dead_server)) = Suc i"
    by (elim conjE) assumption
  moreover have "0 < max_attempts" by (simp add: max_attempts_def)
  ultimately have 5: "snd (poll_server dead_server) = False \<and>
      Terminate \<notin> set (fst (poll_server dead_server)) \<and>
      count_probes (fst (poll_server dead_server)) = Suc 0"
    using died by blast
  from 1 2 3 4 5 show ?thesis by (simp add: max_attempts_def)
qed

text \<open>
  C2 as stated fails in two places. When the first connection is refused and the
  process has exited, False is returned after one probe and \<^verbatim>\<open>process.terminate()\<close>
  is not called. When every probe is answered with status 503, the 45 failed attempts
  follow each other with no sleep of one second between them.
\<close>

theorem poll_server_claim_counterexample:
  "snd (poll_server dead_server) = False \<and>
   fst (poll_server dead_server) = [Http (get_tags 2)] \<and>
   Terminate \<notin> set (fst (poll_server dead_server)) \<and>
   snd (poll_server busy_server) = False \<and>
   count_probes (fst (poll_server busy_server)) = 45 \<and>
   Sleep 1 \<notin> set (fst (poll_server busy_server))"
proof -
  have "process_died dead_server 0"
    by (simp add: dead_server_def refusing_server_def process_died_def)
  then have "wait_loop dead_server 0 = ([Http (get_tags 2)], Some False)"
    by (intro wait_loop_died) (simp add: max_attempts_def)
  then have dead: "poll_server dead_server = ([Http (get_tags 2)], False)"
    by (simp add: poll_server_def)
  have "\<forall>i. \<exists>code b. probe busy_server i = Response code b \<and> code \<noteq> 200"
    by (simp add: busy_server_def refusing_server_def)
  then have busy: "set (fst (wait_loop busy_server 0)) \<subseteq> {Http (get_tags 2)} \<and>
      snd (wait_loop busy_server 0) = None \<and>
      count_probes (fst (wait_loop busy_server 0)) = max_attempts - 0"
    by (rule wait_loop_busy)
  then have p: "poll_server busy_server = (fst (wait_loop busy_server 0) @ [Communicate, Terminate], False)"
    using poll_server_events [of busy_server] by auto
  have "Sleep 1 \<notin> set (fst (wait_loop busy_server 0))"
    using busy by auto
  with p busy dead show ?thesis by (simp add: max_attempts_def)
qed


section \<open>Listing the models: retries and results\<close>











section \<open>Failures of a chat request\<close>

lemma handle_response_cases:
  "(\<forall>code b. r = Response code b \<and> code \<noteq> 200 \<longrightarrow>
      handle_response r = Inr (Display_error (''API error: '' @ str_nat code))) \<and>
   (\<forall>e. r = Connection_error e \<or> r = Timeout e \<or> r = Other_exception e \<longrightarrow>
      handle_response r = Inl e) \<and>
   (\<forall>j d. r = Response 200 (Json j) \<and> json_load j = PDict d \<longrightarrow>
      handle_response r
        = Inr (Display_ai_response (dict_get d ''response'' (PStr ''No response received'')))) \<and>
   (\<forall>e. r = Response 200 (Invalid_json e) \<longrightarrow> handle_response r = Inl e) \<and>
   (\<forall>j. r = Response 200 (Json j) \<and> (\<forall>d. json_load j \<noteq> PDict d) \<longrightarrow>
      handle_response r = Inl (no_attribute_get (json_load j)))"
  by (cases r) (auto simp: handle_response_def split: http_body.splits pyval.splits)

text \<open>
  C3, as amended. \<^verbatim>\<open>process_ai_response\<close> never raises: it always ends by scheduling
  one call. A status other than 200 schedules \<^verbatim>\<open>display_error\<close> with the status code;
  an exception of the request schedules \<^verbatim>\<open>display_error\<close> with the exception's text;
  a 200 response whose body decodes to a JSON object schedules \<^verbatim>\<open>display_ai_response\<close>
  with the object's \<^verbatim>\<open>response\<close> entry, or \<^verbatim>\<open>No response received\<close> when it has none;
  a 200 response whose body is not JSON, or not an object, raises inside the \<^verbatim>\<open>try\<close>
  and schedules \<^verbatim>\<open>display_error\<close> with that exception's text. A file that cannot be
  read makes \<^verbatim>\<open>upload_file\<close> show one error dialog and change nothing else.
\<close>

theorem process_ai_response_surfaces_failures:
  "(\<exists>call. snd (process_ai_response g user_input net) = Inr call) \<and>
   (\<forall>code b. net (generate_request (model_name g) (chat_context g user_input)) = Response code b
        \<and> code \<noteq> 200 \<longrightarrow>
      snd (process_ai_response g user_input net)
        = Inr (Display_error (''API error: '' @ str_nat code))) \<and>
   (\<forall>e. net (generate_request (model_name g) (chat_context g user_input)) = Connection_error e
        \<or> net (generate_request (model_name g) (chat_context g user_input)) = Timeout e
        \<or> net (generate_request (model_name g) (chat_context g user_input)) = Other_exception e \<longrightarrow>
      snd (process_ai_response g user_input net) = Inr (Display_error (''Error: '' @ e))) \<and>
   (\<forall>j d. net (generate_request (model_name g) (chat_context g user_input)) = Response 200 (Json j)
        \<and> json_load j = PDict d \<longrightarrow>
      snd (process_ai_response g user_input net)
        = Inr (Display_ai_response (dict_get d ''response'' (PStr ''No response received'')))) \<and>
   (\<forall>e. net (generate_request (model_name g) (chat_context g user_input))
          = Response 200 (Invalid_json e) \<longrightarrow>
      snd (process_ai_response g user_input net) = Inr (Display_error (''Error: '' @ e))) \<and>
   (\<forall>j. net (generate_request (model_name g) (chat_context g user_input)) = Response 200 (Json j)
        \<and> (\<forall>d. json_load j \<noteq> PDict d) \<longrightarrow>
      snd (process_ai_response g user_input net)
        = Inr (Display_error (''Error: '' @ no_attribute_get (json_load j)))) \<and>
   (file_path \<noteq> [] \<longrightarrow>
      upload_file g file_path (Read_error e)
        = g\<lparr>dialogs := dialogs g @ [(''Upload Error'', ''Could not read file: '' @ e)]\<rparr>)"
proof -
  let ?r = "net (generate_request (model_name g) (chat_context g user_input))"
  have snd_eq: "snd (process_ai_response g user_input net)
      = (case handle_response ?r of Inl e \<Rightarrow> Inr (Display_error (''Error: '' @ e)) | Inr call \<Rightarrow> Inr call)"
    by (simp add: process_ai_response_def Let_def)
  have never: "\<exists>call. snd (process_ai_response g user_input net) = Inr call"
    unfolding snd_eq by (cases "handle_response ?r") simp_all
  have upload: "file_path \<noteq> [] \<longrightarrow>
      upload_file g file_path (Read_error e)
        = g\<lparr>dialogs := dialogs g @ [(''Upload Error'', ''Could not read file: '' @ e)]\<rparr>"
    by (simp add: upload_file_def)
  from handle_response_cases [of ?r] never upload show ?thesis
    unfolding snd_eq by (intro conjI allI impI) (simp_all, auto)
qed

text \<open>One request for each case, and a file the user may not read.\<close>

theorem process_ai_response_surfaces_failures_witness:
  "snd (process_ai_response (init_gui ''llama2'' Missing) ''hi''
          (\<lambda>request. Response 404 (Invalid_json ''404 page not found'')))
     = Inr (Display_error ''API error: 404'') \<and>
   snd (process_ai_response (init_gui ''llama2'' Missing) ''hi''
          (\<lambda>request. Connection_error ''Connection refused''))
     = Inr (Display_error ''Error: Connection refused'') \<and>
   snd (process_ai_response (init_gui ''llama2'' Missing) ''hi''
          (\<lambda>request. Response 200 (Json (JObject [(''response'', JString ''Hello'')]))))
     = Inr (Display_ai_response (PStr ''Hello'')) \<and>
   snd (process_ai_response (init_gui ''llama2'' Missing) ''hi''
          (\<lambda>request. Response 200 (Invalid_json ''Expecting value'')))
     = Inr (Display_error ''Error: Expecting value'') \<and>
   snd (process_ai_response (init_gui ''llama2'' Missing) ''hi''
          (\<lambda>request. Response 200 (Json (JArray []))))
     = Inr (Display_error (''Error: '' @ no_attribute_get (PList []))) \<and>
   upload_file (init_gui ''llama2'' Missing) ''/etc/shadow'' (Read_error ''Permission denied'')
     = (init_gui ''llama2'' Missing)
         \<lparr>dialogs := [(''Upload Error'', ''Could not read file: Permission denied'')]\<rparr>"
proof -
  let ?g = "init_gui ''llama2'' Missing"
  have s404: "str_nat 404 = ''404''" by code_simp
  have obj: "json_load (JObject [(''response'', JString ''Hello'')]) = PDict [(''response'', PStr ''Hello'')]"
    by (simp add: dict_update_def)
  have arr: "\<forall>d. json_load (JArray []) \<noteq> PDict d" by simp
  have 1: "snd (process_ai_response ?g ''hi''
          (\<lambda>request. Response 404 (Invalid_json ''404 page not found'')))
     = Inr (Display_error (''API error: '' @ str_nat 404))"
    using process_ai_response_surfaces_failures
      [of ?g "''hi''" "\<lambda>request. Response 404 (Invalid_json ''404 page not found'')"]
    by simp
  have 2: "snd (process_ai_response ?g ''hi'' (\<lambda>request. Connection_error ''Connection refused''))
     = Inr (Display_error (''Error: '' @ ''Connection refused''))"
    using process_ai_response_surfaces_failures
      [of ?g "''hi''" "\<lambda>request. Connection_error ''Connection refused''"]
    by simp
  have 3: "snd (process_ai_response ?g ''hi''
          (\<lambda>request. Response 200 (Json (JObject [(''response'', JString ''Hello'')]))))
     = Inr (Display_ai_response
              (dict_get [(''response'', PStr ''Hello'')] ''response'' (PStr ''No response received'')))"
    using process_ai_response_surfaces_failures
      [of ?g "''hi''" "\<lambda>request. Response 200 (Json (JObject [(''response'', JString ''Hello'')]))"]
      obj
    by blast
  have 4: "snd (process_ai_response ?g ''hi'' (\<lambda>request. Response 200 (Invalid_json ''Expecting value'')))
     = Inr (Display_error (''Error: '' @ ''Expecting value''))"
    using process_ai_response_surfaces_failures
      [of ?g "''hi''" "\<lambda>request. Response 200 (Invalid_json ''Expecting value'')"]
    by simp
  have 5: "snd (process_ai_response ?g ''hi'' (\<lambda>request. Response 200 (Json (JArray []))))
     = Inr (Display_error (''Error: '' @ no_attribute_get (json_load (JArray []))))"
    using process_ai_response_surfaces_failures
      [of ?g "''hi''" "\<lambda>request. Response 200 (Json (JArray []))"] arr
    by blast
  have 6: "upload_file ?g ''/etc/shadow'' (Read_error ''Permission denied'')
     = ?g\<lparr>dialogs := dialogs ?g @ [(''Upload Error'', ''Could not read file: '' @ ''Permission denied'')]\<rparr>"
    using process_ai_response_surfaces_failures
      [of ?g "''hi''" "\<lambda>request. Response 200 (Json (JArray []))" "''/etc/shadow''" "''Permission denied''"]
    by simp
  from 1 2 3 4 5 6 show ?thesis
    by (simp add: s404 dict_get_def init_gui_def)
qed

text \<open>
  C3 as stated fails: a response with status 200 whose body is not JSON schedules
  \<^verbatim>\<open>display_error\<close>, not \<^verbatim>\<open>display_ai_response\<close>.
\<close>

theorem process_ai_response_200_counterexample:
  "html_reply (generate_request ''llama2'' ''hello'')
     = Response 200 (Invalid_json ''Expecting value: line 1 column 1 (char 0)'') \<and>
   process_ai_response (init_gui ''llama2'' Missing) ''hello'' html_reply
     = ([generate_request ''llama2'' ''hello''],
        Inr (Display_error ''Error: Expecting value: line 1 column 1 (char 0)''))"
  by (simp add: process_ai_response_def handle_response_def html_reply_def chat_context_def
      init_gui_def Let_def)


section \<open>The requests of the HTTP client\<close>

lemma strip_empty_iff: "strip s = [] \<longleftrightarrow> list_all py_isspace s"
proof
  assume "list_all py_isspace s"
  then show "strip s = []" by (rule strip_blank)
next
  assume "strip s = []"
  then have all: "\<forall>c\<in>set (dropWhile py_isspace s). py_isspace c"
    by (simp add: strip_def)
  have "dropWhile py_isspace s = []"
  proof (rule ccontr)
    assume ne: "dropWhile py_isspace s \<noteq> []"
    then have "\<not> py_isspace (hd (dropWhile py_isspace s))" by (rule hd_dropWhile)
    moreover from ne have "hd (dropWhile py_isspace s) \<in> set (dropWhile py_isspace s)" by simp
    ultimately show False using all by blast
  qed
  then show "list_all py_isspace s"
    by (simp add: list_all_iff)
qed









text \<open>
  C4 fails on the code. \<^verbatim>\<open>send_message\<close> is bound to the Return key of the input
  field and does not look at the buttons. Two messages sent with the Return key, the
  second before any answer to the first: the buttons are disabled after the first, and
  yet the second starts a second worker thread, so two requests are in flight.
\<close>

theorem return_key_starts_second_request:
  "send_btn (run (init_gui ''llama2'' Missing) [Edit_input ''a'', Press_return]) = False \<and>
   upload_btn (run (init_gui ''llama2'' Missing) [Edit_input ''a'', Press_return]) = False \<and>
   in_flight (run (init_gui ''llama2'' Missing) [Edit_input ''a'', Press_return]) = 1 \<and>
   threads (run (init_gui ''llama2'' Missing)
              [Edit_input ''a'', Press_return, Edit_input ''b'', Press_return]) = [''a'', ''b''] \<and>
   in_flight (run (init_gui ''llama2'' Missing)
                [Edit_input ''a'', Press_return, Edit_input ''b'', Press_return]) = 2"
  by (simp add: run_def step_def send_message_def add_message_def in_flight_def init_gui_def
      strip_def py_isspace_def Let_def)

section \<open>The send controls while a request is in flight\<close>

lemma send_message_disables:
  "\<not> list_all py_isspace (input_entry g) \<Longrightarrow>
   \<not> send_btn (send_message g) \<and> \<not> upload_btn (send_message g)"
  by (simp add: send_message_def Let_def strip_empty_iff add_message_def)

lemma send_message_keeps_disabled:
  "\<not> send_btn g \<Longrightarrow> \<not> upload_btn g \<Longrightarrow>
   \<not> send_btn (send_message g) \<and> \<not> upload_btn (send_message g)"
  by (simp add: send_message_def Let_def add_message_def)

lemma step_keeps_disabled:
  "\<not> send_btn g \<Longrightarrow> \<not> upload_btn g \<Longrightarrow> e \<noteq> Run_scheduled \<Longrightarrow>
   \<not> send_btn (step g e) \<and> \<not> upload_btn (step g e)"
  by (cases e)
     (simp_all add: step_def send_message_keeps_disabled clear_chat_def add_message_def
        split: sum.splits)

lemma run_keeps_disabled:
  "\<not> send_btn g \<Longrightarrow> \<not> upload_btn g \<Longrightarrow> Run_scheduled \<notin> set events \<Longrightarrow>
   \<not> send_btn (run g events) \<and> \<not> upload_btn (run g events)"
proof (induction events arbitrary: g)
  case Nil
  then show ?case by (simp add: run_def)
next
  case (Cons e events)
  from Cons.prems have "\<not> send_btn (step g e) \<and> \<not> upload_btn (step g e)"
    by (intro step_keeps_disabled) auto
  with Cons.IH [of "step g e"] Cons.prems show ?case
    by (simp add: run_def)
qed

text \<open>
  After a message is sent, the send and upload buttons stay disabled whatever happens,
  until the event loop runs a scheduled \<^verbatim>\<open>display_ai_response\<close> or \<^verbatim>\<open>display_error\<close>.
\<close>

theorem controls_disabled_until_display:
  "\<not> list_all py_isspace (input_entry g) \<Longrightarrow> Run_scheduled \<notin> set events \<Longrightarrow>
   \<not> send_btn (run (send_message g) events) \<and> \<not> upload_btn (run (send_message g) events)"
  using send_message_disables [of g] run_keeps_disabled [of "send_message g" events]
  by blast

text \<open>Clicks and a finished worker after a send leave the buttons disabled.\<close>

theorem controls_disabled_until_display_witness:
  "\<not> send_btn (run (send_message ((init_gui ''llama2'' Missing)\<lparr>input_entry := ''hi''\<rparr>))
                  [Click_send, Click_clear, Worker_runs 0 (Timeout ''Read timed out.'')]) \<and>
   \<not> upload_btn (run (send_message ((init_gui ''llama2'' Missing)\<lparr>input_entry := ''hi''\<rparr>))
                  [Click_send, Click_clear, Worker_runs 0 (Timeout ''Read timed out.'')])"
  using controls_disabled_until_display
    [of "(init_gui ''llama2'' Missing)\<lparr>input_entry := ''hi''\<rparr>"
       "[Click_send, Click_clear, Worker_runs 0 (Timeout ''Read timed out.'')]"]
  by (simp add: py_isspace_def)

lemma drop_nth_length: "i < length xs \<Longrightarrow> length (drop_nth i xs) = length xs - 1"
  by (simp add: drop_nth_def)

lemma step_serial:
  assumes "serial g" and "e \<noteq> Press_return"
  shows "serial (step g e)"
proof (cases e)
  case (Edit_input s)
  with assms show ?thesis by (simp add: step_def serial_def in_flight_def)
next
  case Press_return
  with assms show ?thesis by simp
next
  case Click_send
  show ?thesis
  proof (cases "send_btn g")
    case True
    with assms have "in_flight g = 0" by (simp add: serial_def)
    with True Click_send assms show ?thesis
      by (simp add: step_def serial_def in_flight_def send_message_def Let_def add_message_def)
  next
    case False
    with Click_send assms show ?thesis by (simp add: step_def)
  qed
next
  case (Click_upload p r)
  with assms show ?thesis
    by (simp add: step_def serial_def in_flight_def upload_file_def add_message_def
        split: read_result.splits)
next
  case Click_clear
  with assms show ?thesis
    by (simp add: step_def serial_def in_flight_def clear_chat_def add_message_def)
next
  case (Worker_runs i out)
  show ?thesis
  proof (cases "i < length (threads g)")
    case True
    then have "length (drop_nth i (threads g)) = length (threads g) - 1"
      by (rule drop_nth_length)
    moreover from True assms have "length (threads g) = 1 \<and> length (after_queue g) = 0"
      unfolding serial_def in_flight_def by linarith
    moreover from True assms have "\<not> send_btn g"
      unfolding serial_def in_flight_def by auto
    ultimately show ?thesis
      using True Worker_runs
      by (simp add: step_def serial_def in_flight_def split: sum.splits)
  next
    case False
    with Worker_runs assms show ?thesis by (simp add: step_def)
  qed
next
  case Run_scheduled
  show ?thesis
  proof (cases "after_queue g")
    case Nil
    with Run_scheduled assms show ?thesis by (simp add: step_def)
  next
    case (Cons call calls)
    with assms have "threads g = []" "calls = []"
      by (simp_all add: serial_def in_flight_def)
    with Cons Run_scheduled show ?thesis
      by (cases call)
         (simp_all add: step_def serial_def in_flight_def run_call_def display_ai_response_def
            display_error_def add_message_def)
  qed
qed

lemma run_serial:
  "serial g \<Longrightarrow> Press_return \<notin> set events \<Longrightarrow> serial (run g events)"
proof (induction events arbitrary: g)
  case Nil
  then show ?case by (simp add: run_def)
next
  case (Cons e events)
  from Cons.prems have "serial (step g e)" by (intro step_serial) auto
  with Cons.IH [of "step g e"] Cons.prems show ?case by (simp add: run_def)
qed

text \<open>
  As long as messages are sent with the Send button and never with the Return key, at
  most one request is in flight.
\<close>

theorem send_button_serialises_requests:
  "Press_return \<notin> set events \<Longrightarrow> in_flight (run (init_gui model file) events) \<le> 1"
proof -
  assume a: "Press_return \<notin> set events"
  have "serial (init_gui model file)"
    by (simp add: serial_def in_flight_def init_gui_def)
  from this a have "serial (run (init_gui model file) events)" by (rule run_serial)
  then show ?thesis by (simp add: serial_def)
qed

text \<open>The second click on the disabled button starts nothing.\<close>

theorem send_button_serialises_requests_witness:
  "in_flight (run (init_gui ''llama2'' Missing)
                [Edit_input ''a'', Click_send, Edit_input ''b'', Click_send]) \<le> 1"
  using send_button_serialises_requests
    [of "[Edit_input ''a'', Click_send, Edit_input ''b'', Click_send]" "''llama2''" Missing]
  by simp


section \<open>Saving and loading the preferences\<close>

lemma update_fresh: "k \<notin> fst ` set d \<Longrightarrow> AList.update k v d = d @ [(k, v)]"
  by (induction d) auto

lemma dict_update_distinct:
  "distinct (map fst (d @ other)) \<Longrightarrow> dict_update d other = d @ other"
proof (induction other arbitrary: d)
  case Nil
  then show ?case by (simp add: dict_update_def)
next
  case (Cons kv other)
  from Cons.prems have fresh: "fst kv \<notin> fst ` set d" by auto
  from Cons.prems have "distinct (map fst ((d @ [kv]) @ other))" by auto
  then have "dict_update (d @ [kv]) other = (d @ [kv]) @ other" by (rule Cons.IH)
  moreover have "dict_update d (kv # other) = dict_update (AList.update (fst kv) (snd kv) d) other"
    by (simp add: dict_update_def)
  moreover have "AList.update (fst kv) (snd kv) d = d @ [kv]"
    using update_fresh [OF fresh, of "snd kv"] by simp
  ultimately show ?case by simp
qed

lemma map_of_dict_update:
  "distinct (map fst other) \<Longrightarrow> map_of (dict_update d other) = map_of d ++ map_of other"
proof (induction other arbitrary: d)
  case Nil
  then show ?case by (simp add: dict_update_def)
next
  case (Cons kv other)
  obtain k v where kv: "kv = (k, v)" by (cases kv)
  from Cons.prems kv have fresh: "k \<notin> fst ` set other" and d: "distinct (map fst other)"
    by auto
  have "map_of (dict_update d (kv # other))
      = map_of (dict_update (AList.update k v d) other)"
    by (simp add: dict_update_def kv)
  also have "\<dots> = map_of (AList.update k v d) ++ map_of other"
    using d by (rule Cons.IH)
  also have "\<dots> = (map_of d)(k \<mapsto> v) ++ map_of other"
    by (simp add: update_conv')
  also have "\<dots> = map_of d ++ map_of (kv # other)"
  proof
    fix x
    from fresh have "map_of other k = None"
      by (simp add: map_of_eq_None_iff)
    then show "((map_of d)(k \<mapsto> v) ++ map_of other) x = (map_of d ++ map_of (kv # other)) x"
      by (simp add: kv map_add_def split: option.splits)
  qed
  finally show ?case .
qed

lemma json_round_trip: "well_formed v \<Longrightarrow> json_load (json_dump v) = as_lists v"
proof (induction v)
  case (PList vs)
  then show ?case by (simp add: list_all_iff)
next
  case (PTuple vs)
  then show ?case by (simp add: list_all_iff)
next
  case (PDict items)
  have keys: "map fst (map (map_prod id as_lists) items) = map fst items"
    by simp
  have "map (map_prod id json_load) (map (map_prod id json_dump) items)
      = map (map_prod id json_load \<circ> map_prod id json_dump) items"
    by simp
  also have "\<dots> = map (map_prod id as_lists) items"
  proof (rule map_cong [OF refl])
    fix kv
    assume kv: "kv \<in> set items"
    obtain k x where p: "kv = (k, x)" by (cases kv)
    with kv PDict.prems have "well_formed x" by (auto simp: list_all_iff)
    moreover from kv p have "x \<in> Basic_BNFs.snds kv" by simp
    ultimately have "json_load (json_dump x) = as_lists x"
      using PDict.IH kv by blast
    with p show "(map_prod id json_load \<circ> map_prod id json_dump) kv = map_prod id as_lists kv"
      by simp
  qed
  finally have maps: "map (map_prod id json_load) (map (map_prod id json_dump) items)
      = map (map_prod id as_lists) items" .
  from PDict.prems have "distinct (map fst ([] @ map (map_prod id as_lists) items))"
    by simp
  then have "dict_update [] (map (map_prod id as_lists) items) = [] @ map (map_prod id as_lists) items"
    by (rule dict_update_distinct)
  then have upd: "dict_update [] (map (map_prod id as_lists) items) = map (map_prod id as_lists) items"
    by simp
  show ?case
    by (simp only: json_dump.simps json_load.simps as_lists.simps maps upd)
qed simp_all

lemma map_add_covered:
  "fst ` set d \<subseteq> fst ` set other \<Longrightarrow> map_of d ++ map_of other = map_of other"
proof
  fix x
  assume sub: "fst ` set d \<subseteq> fst ` set other"
  show "(map_of d ++ map_of other) x = map_of other x"
  proof (cases "map_of other x")
    case None
    then have "x \<notin> fst ` set other" by (simp add: map_of_eq_None_iff)
    with sub have "x \<notin> fst ` set d" by blast
    then have "map_of d x = None" by (simp add: map_of_eq_None_iff)
    with None show ?thesis by (simp add: map_add_def)
  next
    case (Some v)
    then show ?thesis by (simp add: map_add_def)
  qed
qed

lemma save_then_load:
  assumes "well_formed (PDict cfg)"
  shows "load_config d (save_config cfg True file)
           = dict_update d (map (map_prod id as_lists) cfg)"
proof -
  have "save_config cfg True file = Json_object (map (map_prod id json_dump) cfg)"
    by (simp add: save_config_def)
  moreover have "json_load (JObject (map (map_prod id json_dump) cfg)) = as_lists (PDict cfg)"
    using json_round_trip [OF assms] by simp
  ultimately show ?thesis by (simp add: load_config_def)
qed

lemma as_lists_items_id:
  "\<forall>kv\<in>set cfg. as_lists (snd kv) = snd kv \<Longrightarrow> map (map_prod id as_lists) cfg = cfg"
  by (induction cfg) auto

text \<open>
  C9, as amended. For every preferences dict (well formed, as every Python dict is),
  \<^verbatim>\<open>save_config\<close> to a writable file followed by \<^verbatim>\<open>load_config\<close> on a fresh default
  config yields the default config updated with the saved items in which every tuple
  has become the list of its elements. When the saved dict has the default keys, the
  result is, as a dict, the saved one with tuples as lists: the font entries saved as
  \<open>(family, size)\<close> tuples come back as \<open>[family, size]\<close> lists. It is equal to the
  saved dict when that holds no tuple.
\<close>

theorem config_round_trip_up_to_lists:
  "well_formed (PDict cfg) \<Longrightarrow>
     load_config default_config (save_config cfg True file)
       = dict_update default_config (map (map_prod id as_lists) cfg) \<and>
     (set (map fst default_config) \<subseteq> set (map fst cfg) \<longrightarrow>
        map_of (load_config default_config (save_config cfg True file))
          = map_of (map (map_prod id as_lists) cfg)) \<and>
     (set (map fst default_config) \<subseteq> set (map fst cfg) \<and>
      (\<forall>kv\<in>set cfg. as_lists (snd kv) = snd kv) \<longrightarrow>
        map_of (load_config default_config (save_config cfg True file)) = map_of cfg)"
proof -
  assume wf: "well_formed (PDict cfg)"
  let ?saved = "map (map_prod id as_lists) cfg"
  have load: "load_config default_config (save_config cfg True file)
       = dict_update default_config ?saved"
    using wf by (rule save_then_load)
  from wf have "distinct (map fst ?saved)" by simp
  then have m: "map_of (dict_update default_config ?saved) = map_of default_config ++ map_of ?saved"
    by (rule map_of_dict_update)
  have covered: "set (map fst default_config) \<subseteq> set (map fst cfg) \<Longrightarrow>
      map_of (load_config default_config (save_config cfg True file)) = map_of ?saved"
  proof -
    assume "set (map fst default_config) \<subseteq> set (map fst cfg)"
    then have "fst ` set default_config \<subseteq> fst ` set ?saved"
      by (simp add: image_image)
    then have "map_of default_config ++ map_of ?saved = map_of ?saved"
      by (rule map_add_covered)
    with load m show ?thesis by simp
  qed
  have exact: "set (map fst default_config) \<subseteq> set (map fst cfg) \<and>
      (\<forall>kv\<in>set cfg. as_lists (snd kv) = snd kv) \<Longrightarrow>
        map_of (load_config default_config (save_config cfg True file)) = map_of cfg"
    using covered as_lists_items_id [of cfg] by simp
  from load covered exact show ?thesis by blast
qed

text \<open>Preferences with a font changed: the font comes back as a list.\<close>

theorem config_round_trip_up_to_lists_witness:
  "well_formed (PDict custom_config) \<and>
   set (map fst default_config) \<subseteq> set (map fst custom_config) \<and>
   map_of (load_config default_config (save_config custom_config True Missing)) ''user_font''
     = Some (PList [PStr ''Courier New'', PInt 14]) \<and>
   map_of (load_config default_config (save_config custom_config True Missing)) ''agent_color''
     = Some (PStr ''#00ffff'')"
proof -
  have wf: "well_formed (PDict custom_config)"
    by (simp add: custom_config_def)
  have sub: "set (map fst default_config) \<subseteq> set (map fst custom_config)"
    by (simp add: custom_config_def default_config_def)
  from config_round_trip_up_to_lists [OF wf, of Missing] sub
  have "map_of (load_config default_config (save_config custom_config True Missing))
      = map_of (map (map_prod id as_lists) custom_config)"
    by blast
  with wf sub show ?thesis by (simp add: custom_config_def)
qed

text \<open>
  C9 as stated fails on the default preferences themselves: \<^verbatim>\<open>user_font\<close> is saved as
  the tuple \<^verbatim>\<open>('Arial', 12)\<close> and loaded as the list \<^verbatim>\<open>['Arial', 12]\<close>, which Python
  does not hold equal, so the config loaded is not equal to the one saved.
\<close>

theorem config_round_trip_counterexample:
  "map_of default_config ''user_font'' = Some (PTuple [PStr ''Arial'', PInt 12]) \<and>
   map_of (load_config default_config (save_config default_config True Missing)) ''user_font''
     = Some (PList [PStr ''Arial'', PInt 12]) \<and>
   load_config default_config (save_config default_config True Missing) \<noteq> default_config"
proof -
  have l: "load_config default_config (save_config default_config True Missing)
      = [(''user_font'', PList [PStr ''Arial'', PInt 12]),
         (''user_color'', PStr ''#00ff00''),
         (''agent_font'', PList [PStr ''Arial'', PInt 12]),
         (''agent_color'', PStr ''#ff4444''),
         (''bg_color'', PStr ''#2b2b2b''),
         (''text_color'', PStr ''#ffffff'')]"
    by (simp add: load_config_def save_config_def default_config_def dict_update_def)
  show ?thesis unfolding l by (simp add: default_config_def)
qed


section \<open>GPU memory detection: order and results\<close>






















end
